theory Spec2Isabelle
  imports Main "HOL-Library.Product_Lexorder" "HOL-Library.AList"
begin

section \<open>JavaScript values\<close>

text \<open>
  Values of type \<open>any\<close> in the TypeScript sources are JSON-shaped: request bodies,
  the \<open>conditions\<close> column of a policy, audit metadata, entities returned by a service.
  Numbers are integers here (no fractions, no NaN); \<open>undefined\<close> is \<open>None\<close> of
  \<open>jsval\<close>. An object is the list of its own enumerable properties in insertion order.
\<close>

datatype json =
    JNull
  | JBool bool
  | JNum int
  | JStr string
  | JArr "json list"
  | JObj "(string \<times> json) list"

type_synonym jsval = "json option"

datatype error = Error string

text \<open>Truthiness, as tested by \<open>if (x)\<close>, \<open>!x\<close> and \<open>x || y\<close>.\<close>

fun truthy :: "json \<Rightarrow> bool" where
  "truthy JNull = False"
| "truthy (JBool b) = b"
| "truthy (JNum n) = (n \<noteq> 0)"
| "truthy (JStr s) = (s \<noteq> [])"
| "truthy (JArr xs) = True"
| "truthy (JObj fs) = True"

fun js_truthy :: "jsval \<Rightarrow> bool" where
  "js_truthy None = False"
| "js_truthy (Some v) = truthy v"

text \<open>\<open>a || b\<close> on values, and on optional strings (the empty string is falsy).\<close>

definition js_or :: "jsval \<Rightarrow> jsval \<Rightarrow> jsval" where
  "js_or a b = (if js_truthy a then a else b)"

definition str_or :: "string option \<Rightarrow> string option \<Rightarrow> string option" where
  "str_or a b = (case a of Some s \<Rightarrow> if s \<noteq> [] then a else b | None \<Rightarrow> b)"

text \<open>Decimal rendering of array indices and of numbers in template strings.\<close>

fun string_of_nat :: "nat \<Rightarrow> string" where
  "string_of_nat n =
     (if n < 10 then [char_of (48 + n)]
      else string_of_nat (n div 10) @ [char_of (48 + n mod 10)])"

definition string_of_int :: "int \<Rightarrow> string" where
  "string_of_int i = (if i < 0 then CHR ''-'' # string_of_nat (nat (- i)) else string_of_nat (nat i))"

text \<open>
  \<open>Object.entries(v)\<close> and the properties copied by the spread \<open>{...v}\<close>: the own
  enumerable properties. An array has its indices as keys, a string its characters.
\<close>

fun object_entries :: "json \<Rightarrow> (string \<times> json) list" where
  "object_entries (JObj fs) = fs"
| "object_entries (JArr xs) = zip (map string_of_nat [0..<length xs]) xs"
| "object_entries (JStr s) = zip (map string_of_nat [0..<length s]) (map (\<lambda>c. JStr [c]) s)"
| "object_entries JNull = []"
| "object_entries (JBool b) = []"
| "object_entries (JNum n) = []"

text \<open>
  \<open>v?.k\<close> for a property name \<open>k\<close> that no prototype defines: \<open>undefined\<close> unless
  \<open>v\<close> is an object that has the property.
\<close>

fun opt_get :: "jsval \<Rightarrow> string \<Rightarrow> jsval" where
  "opt_get (Some (JObj fs)) k = map_of fs k"
| "opt_get v k = None"

text \<open>
  \<open>x === v\<close> where \<open>v\<close> was parsed from a JSON column and \<open>x\<close> comes from the caller:
  primitives compare by value; an array or an object is a fresh reference and equals
  nothing the caller holds; \<open>undefined\<close> equals no JSON value.
\<close>

fun strict_eq :: "jsval \<Rightarrow> json \<Rightarrow> bool" where
  "strict_eq (Some JNull) JNull = True"
| "strict_eq (Some (JBool a)) (JBool b) = (a = b)"
| "strict_eq (Some (JNum a)) (JNum b) = (a = b)"
| "strict_eq (Some (JStr a)) (JStr b) = (a = b)"
| "strict_eq x v = False"

text \<open>\<open>`${v}`\<close>: the string a value has in a template literal.\<close>

fun join_with :: "string \<Rightarrow> string list \<Rightarrow> string" where
  "join_with sep [] = []"
| "join_with sep [x] = x"
| "join_with sep (x # y # ys) = x @ sep @ join_with sep (y # ys)"

fun js_to_string :: "json \<Rightarrow> string" where
  "js_to_string JNull = ''null''"
| "js_to_string (JBool b) = (if b then ''true'' else ''false'')"
| "js_to_string (JNum n) = string_of_int n"
| "js_to_string (JStr s) = s"
| "js_to_string (JArr xs) =
     join_with '','' (map (\<lambda>x. if x = JNull then [] else js_to_string x) xs)"
| "js_to_string (JObj fs) = ''[object Object]''"

section \<open>RBAC service (rbac-service.ts)\<close>

datatype Role = GlobalAdmin | TenantAdmin | CatalogMgr | OrderOps | ReadOnly

datatype Action =
  Act_create | Act_read | Act_update | Act_delete | Act_cancel | Act_fulfill | Act_refund | Act_star

datatype Resource =
  Res_product | Res_order | Res_customer | Res_tenant | Res_user | Res_star

fun action_text :: "Action \<Rightarrow> string" where
  "action_text Act_create = ''create''"
| "action_text Act_read = ''read''"
| "action_text Act_update = ''update''"
| "action_text Act_delete = ''delete''"
| "action_text Act_cancel = ''cancel''"
| "action_text Act_fulfill = ''fulfill''"
| "action_text Act_refund = ''refund''"
| "action_text Act_star = ''*''"

fun resource_text :: "Resource \<Rightarrow> string" where
  "resource_text Res_product = ''product''"
| "resource_text Res_order = ''order''"
| "resource_text Res_customer = ''customer''"
| "resource_text Res_tenant = ''tenant''"
| "resource_text Res_user = ''user''"
| "resource_text Res_star = ''*''"

text \<open>Position of the role and resource texts in the order of \<open>ORDER BY role, resource\<close>.\<close>

fun role_rank :: "Role \<Rightarrow> nat" where
  "role_rank CatalogMgr = 0"
| "role_rank GlobalAdmin = 1"
| "role_rank OrderOps = 2"
| "role_rank ReadOnly = 3"
| "role_rank TenantAdmin = 4"

fun resource_rank :: "Resource \<Rightarrow> nat" where
  "resource_rank Res_star = 0"
| "resource_rank Res_customer = 1"
| "resource_rank Res_order = 2"
| "resource_rank Res_product = 3"
| "resource_rank Res_tenant = 4"
| "resource_rank Res_user = 5"

text \<open>A row of \<open>rbac_policy\<close>; times are milliseconds.\<close>

record RbacPolicy =
  p_id :: string
  p_role :: Role
  p_resource :: Resource
  p_actions :: "Action list"
  p_conditions :: jsval
  p_version :: int
  effective_from :: int
  effective_until :: "int option"

text \<open>A row of \<open>admin_user\<close>.\<close>

record AdminUser =
  au_id :: string
  user_id :: string
  tenant_id :: "string option"
  au_role :: Role
  email :: string
  is_active :: bool
  created_at :: int
  updated_at :: int

text \<open>
  The two tables the services query. The datastore is a value: a query is a function of
  the tables, and connection failures are outside this model. The time \<open>now\<close> stands
  for \<open>Date.now()\<close> and for the datastore's \<open>NOW()\<close>; one call of a service
  method is evaluated at a single instant.
\<close>

record Database =
  rbac_policy :: "RbacPolicy list"
  admin_user :: "AdminUser list"

text \<open>The fields of \<open>RbacService\<close>: the policy cache (a \<open>Map\<close>) and its expiry.\<close>

record RbacService =
  policyCache :: "(Role \<times> RbacPolicy list) list"
  cacheExpiry :: int

definition CACHE_TTL :: int where
  "CACHE_TTL = 5 * 60 * 1000"

definition new_RbacService :: RbacService where
  "new_RbacService = \<lparr>policyCache = [], cacheExpiry = 0\<rparr>"

text \<open>The query of \<open>loadPolicies\<close>: the policies in force now, ordered by role and resource.\<close>

definition in_force :: "int \<Rightarrow> RbacPolicy \<Rightarrow> bool" where
  "in_force now p =
     (effective_from p \<le> now \<and> (case effective_until p of None \<Rightarrow> True | Some u \<Rightarrow> now < u))"

definition select_policies :: "Database \<Rightarrow> int \<Rightarrow> RbacPolicy list" where
  "select_policies db now =
     sort_key (\<lambda>p. (role_rank (p_role p), resource_rank (p_resource p)))
       (filter (in_force now) (rbac_policy db))"

text \<open>The grouping loop of \<open>loadPolicies\<close>: each policy is pushed on its role's array.\<close>

fun group_by_role :: "RbacPolicy list \<Rightarrow> (Role \<times> RbacPolicy list) list \<Rightarrow> (Role \<times> RbacPolicy list) list" where
  "group_by_role [] cache = cache"
| "group_by_role (policy # rest) cache =
     (let role = p_role policy;
          cache1 = (if map_of cache role = None then AList.update role [] cache else cache);
          cache2 = AList.update role ((case map_of cache1 role of None \<Rightarrow> [] | Some ps \<Rightarrow> ps) @ [policy]) cache1
      in group_by_role rest cache2)"

definition loadPolicies :: "Database \<Rightarrow> int \<Rightarrow> RbacService \<Rightarrow> RbacService" where
  "loadPolicies db now svc =
     (if length (policyCache svc) > 0 \<and> now < cacheExpiry svc then svc
      else \<lparr>policyCache = group_by_role (select_policies db now) [],
            cacheExpiry = now + CACHE_TTL\<rparr>)"

text \<open>
  \<open>evaluateConditions\<close>. The context is a plain object or absent (\<open>None\<close>: any falsy
  context).
\<close>

fun conditions_hold :: "(string \<times> json) list \<Rightarrow> (string \<times> json) list \<Rightarrow> bool" where
  "conditions_hold [] context = True"
| "conditions_hold ((key, val) # rest) context =
     (if \<not> strict_eq (map_of context key) val then False else conditions_hold rest context)"

definition evaluateConditions :: "jsval \<Rightarrow> (string \<times> json) list option \<Rightarrow> bool" where
  "evaluateConditions conditions context =
     (case conditions of
        None \<Rightarrow> True
      | Some c \<Rightarrow>
          (if \<not> truthy c then True
           else (case context of
                   None \<Rightarrow> True
                 | Some ctx \<Rightarrow> conditions_hold (object_entries c) ctx)))"

text \<open>\<open>this.policyCache.get(role) || []\<close>\<close>

definition cache_get :: "RbacService \<Rightarrow> Role \<Rightarrow> RbacPolicy list" where
  "cache_get svc role = (case map_of (policyCache svc) role of None \<Rightarrow> [] | Some ps \<Rightarrow> ps)"

text \<open>The loop of \<open>hasPermission\<close> over the role's policies.\<close>

fun policies_grant ::
  "RbacPolicy list \<Rightarrow> Resource \<Rightarrow> Action \<Rightarrow> (string \<times> json) list option \<Rightarrow> bool" where
  "policies_grant [] resource action context = False"
| "policies_grant (policy # rest) resource action context =
     (if p_resource policy \<noteq> Res_star \<and> p_resource policy \<noteq> resource
      then policies_grant rest resource action context
      else if Act_star \<in> set (p_actions policy) \<or> action \<in> set (p_actions policy)
      then (if js_truthy (p_conditions policy) \<and> \<not> evaluateConditions (p_conditions policy) context
            then policies_grant rest resource action context
            else True)
      else policies_grant rest resource action context)"

definition hasPermission ::
  "Database \<Rightarrow> int \<Rightarrow> RbacService \<Rightarrow> Role \<Rightarrow> Resource \<Rightarrow> Action \<Rightarrow>
     (string \<times> json) list option \<Rightarrow> bool \<times> RbacService" where
  "hasPermission db now svc role resource action context =
     (let svc1 = loadPolicies db now svc in
      if role = GlobalAdmin then (True, svc1)
      else (let policies = cache_get svc1 role
            in (policies_grant policies resource action context, svc1)))"

definition getRolePermissions :: "Database \<Rightarrow> int \<Rightarrow> RbacService \<Rightarrow> Role \<Rightarrow> RbacPolicy list \<times> RbacService" where
  "getRolePermissions db now svc role =
     (let svc1 = loadPolicies db now svc in (cache_get svc1 role, svc1))"

definition getUserRoles :: "Database \<Rightarrow> string \<Rightarrow> (Role \<times> string option) list" where
  "getUserRoles db userId =
     map (\<lambda>row. (au_role row, tenant_id row))
       (filter (\<lambda>row. user_id row = userId \<and> is_active row) (admin_user db))"

definition canAccessTenant :: "Database \<Rightarrow> string \<Rightarrow> string \<Rightarrow> bool" where
  "canAccessTenant db userId tenantId =
     (let userRoles = getUserRoles db userId in
      if list_ex (\<lambda>r. fst r = GlobalAdmin) userRoles then True
      else list_ex (\<lambda>r. snd r = Some tenantId) userRoles)"

record AccessResult =
  allowed :: bool
  reason :: "string option"

text \<open>The loop of \<open>verifyAccess\<close> over the user's roles; it passes no context.\<close>

fun roles_grant ::
  "Database \<Rightarrow> int \<Rightarrow> RbacService \<Rightarrow> (Role \<times> string option) list \<Rightarrow> Resource \<Rightarrow> Action \<Rightarrow>
     bool \<times> RbacService" where
  "roles_grant db now svc [] resource action = (False, svc)"
| "roles_grant db now svc (r # rest) resource action =
     (case hasPermission db now svc (fst r) resource action None of
        (granted, svc1) \<Rightarrow>
          if granted then (True, svc1) else roles_grant db now svc1 rest resource action)"

definition quoted :: "string \<Rightarrow> string" where
  "quoted s = [CHR 0x27] @ s @ [CHR 0x27]"

definition verifyAccess ::
  "Database \<Rightarrow> int \<Rightarrow> RbacService \<Rightarrow> string \<Rightarrow> string \<Rightarrow> Resource \<Rightarrow> Action \<Rightarrow>
     AccessResult \<times> RbacService" where
  "verifyAccess db now svc userId tenantId resource action =
     (let userRoles = getUserRoles db userId in
      if length userRoles = 0
      then (\<lparr>allowed = False, reason = Some ''No roles assigned to user''\<rparr>, svc)
      else if \<not> canAccessTenant db userId tenantId
      then (\<lparr>allowed = False, reason = Some (''No access to tenant '' @ quoted tenantId)\<rparr>, svc)
      else (case roles_grant db now svc userRoles resource action of
              (granted, svc1) \<Rightarrow>
                if granted then (\<lparr>allowed = True, reason = None\<rparr>, svc1)
                else (\<lparr>allowed = False,
                       reason = Some (''No permission to '' @ quoted (action_text action) @
                                      '' on '' @ quoted (resource_text resource))\<rparr>, svc1)))"

definition clearCache :: "RbacService \<Rightarrow> RbacService" where
  "clearCache svc = \<lparr>policyCache = [], cacheExpiry = 0\<rparr>"

section \<open>Admin user service (admin-user-service.ts)\<close>

text \<open>
  \<open>assignUserToTenant\<close>: the insert, or on a conflict on \<open>(user_id, tenant_id)\<close> the
  update of the row in conflict. The generated row id and the time are parameters; the
  table's other constraints are not modelled.
\<close>

definition assignUserToTenant ::
  "Database \<Rightarrow> string \<Rightarrow> int \<Rightarrow> string \<Rightarrow> string \<Rightarrow> Role \<Rightarrow> string \<Rightarrow> Database" where
  "assignUserToTenant db rid now userId tenantId role mail =
     (if list_ex (\<lambda>row. user_id row = userId \<and> tenant_id row = Some tenantId) (admin_user db)
      then db\<lparr>admin_user :=
             map (\<lambda>row. if user_id row = userId \<and> tenant_id row = Some tenantId
                         then row\<lparr>au_role := role, is_active := True, updated_at := now\<rparr>
                         else row)
               (admin_user db)\<rparr>
      else db\<lparr>admin_user := admin_user db @
             [\<lparr>au_id = rid, user_id = userId, tenant_id = Some tenantId, au_role = role,
               email = mail, is_active = True, created_at = now, updated_at = now\<rparr>]\<rparr>)"

definition removeUserFromTenant :: "Database \<Rightarrow> int \<Rightarrow> string \<Rightarrow> string \<Rightarrow> Database" where
  "removeUserFromTenant db now userId tenantId =
     db\<lparr>admin_user :=
          map (\<lambda>row. if user_id row = userId \<and> tenant_id row = Some tenantId
                      then row\<lparr>is_active := False, updated_at := now\<rparr>
                      else row)
            (admin_user db)\<rparr>"

section \<open>Tenant context middleware (tenant-context.ts)\<close>

record Tenant =
  t_id :: string
  t_name :: string
  t_domain :: string
  t_subdomain :: "string option"

text \<open>
  The request, with the fields the middlewares and services read or set. Header names
  are in lower case, as Node delivers them. \<open>req_method\<close> is \<open>req.method\<close>, \<open>req_user_id\<close> is \<open>req.user?.id\<close> and
  \<open>auth_actor_id\<close> is \<open>req.auth?.actor_id\<close>.
\<close>

record MedusaRequest =
  headers :: "(string \<times> string) list"
  req_method :: string
  path :: string
  body :: jsval
  ip :: "string option"
  remoteAddress :: "string option"
  req_user_id :: "string option"
  auth_actor_id :: "string option"
  tenant :: "Tenant option"
  tenantId :: "string option"
  tenantDetectionMethod :: "string option"
  rbacCheck :: jsval

text \<open>
  The tenant module service is not part of these sources: its two lookups are
  parameters. A lookup may change the service's state \<open>'s\<close> (its cache), may throw, and
  returns the tenant or \<open>null\<close>.
\<close>

record 's TenantService =
  getTenantById :: "string \<Rightarrow> 's \<Rightarrow> (error + Tenant option) \<times> 's"
  getTenantByDomain :: "string \<Rightarrow> 's \<Rightarrow> (error + Tenant option) \<times> 's"

text \<open>\<open>s.split(sep)\<close> for a one-character separator.\<close>

fun split_on :: "char \<Rightarrow> string \<Rightarrow> string list" where
  "split_on sep [] = [[]]"
| "split_on sep (c # cs) =
     (if c = sep then [] # split_on sep cs
      else (case split_on sep cs of [] \<Rightarrow> [[c]] | part # parts \<Rightarrow> (c # part) # parts))"

text \<open>\<open>req.headers.host || ""\<close>\<close>

definition header_host :: "MedusaRequest \<Rightarrow> string" where
  "header_host req = (case map_of (headers req) ''host'' of None \<Rightarrow> [] | Some h \<Rightarrow> h)"

text \<open>
  The four steps of the \<open>try\<close> block, in the order of the source. Each takes the
  \<open>tenant\<close> and \<open>detectionMethod\<close> variables as the step before left them.
\<close>

definition detect_header ::
  "'s TenantService \<Rightarrow> MedusaRequest \<Rightarrow> 's \<Rightarrow> (error + Tenant option \<times> string) \<times> 's" where
  "detect_header svc req s =
     (case map_of (headers req) ''x-tenant-id'' of
        None \<Rightarrow> (Inr (None, ''none''), s)
      | Some tenantHeader \<Rightarrow>
          if tenantHeader = [] then (Inr (None, ''none''), s)
          else (case getTenantById svc tenantHeader s of
                  (Inl e, s1) \<Rightarrow> (Inl e, s1)
                | (Inr found, s1) \<Rightarrow> (Inr (found, ''header''), s1)))"

definition detect_subdomain ::
  "'s TenantService \<Rightarrow> MedusaRequest \<Rightarrow> Tenant option \<Rightarrow> string \<Rightarrow> 's \<Rightarrow>
     (error + Tenant option \<times> string) \<times> 's" where
  "detect_subdomain svc req tnt detectionMethod s =
     (if tnt \<noteq> None then (Inr (tnt, detectionMethod), s)
      else (let parts = split_on CHR ''.'' (header_host req) in
            if length parts > 2
            then (case parts of
                    [] \<Rightarrow> (Inr (tnt, detectionMethod), s)
                  | subdomain # _ \<Rightarrow>
                      (case getTenantByDomain svc subdomain s of
                         (Inl e, s1) \<Rightarrow> (Inl e, s1)
                       | (Inr found, s1) \<Rightarrow>
                           (Inr (found, if found \<noteq> None then ''subdomain'' else detectionMethod), s1)))
            else (Inr (tnt, detectionMethod), s)))"

definition detect_domain ::
  "'s TenantService \<Rightarrow> MedusaRequest \<Rightarrow> Tenant option \<Rightarrow> string \<Rightarrow> 's \<Rightarrow>
     (error + Tenant option \<times> string) \<times> 's" where
  "detect_domain svc req tnt detectionMethod s =
     (if tnt \<noteq> None then (Inr (tnt, detectionMethod), s)
      else (let dom_name = (case split_on CHR '':'' (header_host req) of [] \<Rightarrow> [] | d # _ \<Rightarrow> d) in
            case getTenantByDomain svc dom_name s of
              (Inl e, s1) \<Rightarrow> (Inl e, s1)
            | (Inr found, s1) \<Rightarrow>
                (Inr (found, if found \<noteq> None then ''domain'' else detectionMethod), s1)))"

definition detect_default ::
  "'s TenantService \<Rightarrow> Tenant option \<Rightarrow> string \<Rightarrow> 's \<Rightarrow> (error + Tenant option \<times> string) \<times> 's" where
  "detect_default svc tnt detectionMethod s =
     (if tnt \<noteq> None then (Inr (tnt, detectionMethod), s)
      else (case getTenantById svc ''hq'' s of
              (Inl e, s1) \<Rightarrow> (Inl e, s1)
            | (Inr found, s1) \<Rightarrow> (Inr (found, ''default''), s1)))"

definition detect_tenant ::
  "'s TenantService \<Rightarrow> MedusaRequest \<Rightarrow> 's \<Rightarrow> (error + Tenant option \<times> string) \<times> 's" where
  "detect_tenant svc req s =
     (case detect_header svc req s of
        (Inl e, s1) \<Rightarrow> (Inl e, s1)
      | (Inr (t1, m1), s1) \<Rightarrow>
     (case detect_subdomain svc req t1 m1 s1 of
        (Inl e, s2) \<Rightarrow> (Inl e, s2)
      | (Inr (t2, m2), s2) \<Rightarrow>
     (case detect_domain svc req t2 m2 s2 of
        (Inl e, s3) \<Rightarrow> (Inl e, s3)
      | (Inr (t3, m3), s3) \<Rightarrow> detect_default svc t3 m3 s3)))"

text \<open>
  The middleware: the request as the next handler sees it. An exception of a lookup is
  caught and the request goes on without a tenant. Console output is not modelled here.
\<close>

definition tenantContextMiddleware ::
  "'s TenantService \<Rightarrow> MedusaRequest \<Rightarrow> 's \<Rightarrow> MedusaRequest \<times> 's" where
  "tenantContextMiddleware svc req s =
     (case detect_tenant svc req s of
        (Inl e, s1) \<Rightarrow> (req, s1)
      | (Inr (None, detectionMethod), s1) \<Rightarrow> (req, s1)
      | (Inr (Some t, detectionMethod), s1) \<Rightarrow>
          (req\<lparr>tenant := Some t, tenantId := Some (t_id t),
               tenantDetectionMethod := Some detectionMethod\<rparr>, s1))"

text \<open>\<open>req.tenantId || null\<close>\<close>

definition getTenantIdFromRequest :: "MedusaRequest \<Rightarrow> string option" where
  "getTenantIdFromRequest req = str_or (tenantId req) None"

section \<open>Caches (the performance utilities)\<close>

record CacheEntry =
  data :: jsval
  expiry :: int

type_synonym cache = "string \<Rightarrow> CacheEntry option"

text \<open>
  A fetch function runs in a world \<open>'w\<close> that it may change; it returns a value or
  throws. \<open>now\<close> is \<open>Date.now()\<close>, read before the fetch. The tenant cache uses the
  module's own \<open>CACHE_TTL\<close>, five minutes like the RBAC service's.
\<close>

definition getCachedTenant ::
  "string \<Rightarrow> ('w \<Rightarrow> (error + jsval) \<times> 'w) \<Rightarrow> int \<Rightarrow> cache \<Rightarrow> 'w \<Rightarrow> (error + jsval) \<times> cache \<times> 'w" where
  "getCachedTenant tenantKey fetchFn now tenantCache w =
     (case (case tenantCache tenantKey of
              None \<Rightarrow> None
            | Some cached \<Rightarrow> if expiry cached > now then Some cached else None) of
        Some cached \<Rightarrow> (Inr (data cached), tenantCache, w)
      | None \<Rightarrow>
          (case fetchFn w of
             (Inl e, w1) \<Rightarrow> (Inl e, tenantCache, w1)
           | (Inr fetched, w1) \<Rightarrow>
               (Inr fetched,
                if js_truthy fetched
                then tenantCache(tenantKey \<mapsto> \<lparr>data = fetched, expiry = now + CACHE_TTL\<rparr>)
                else tenantCache,
                w1)))"

definition invalidateTenantCache :: "string \<Rightarrow> cache \<Rightarrow> cache" where
  "invalidateTenantCache tenantKey tenantCache = tenantCache(tenantKey := None)"

definition clearAllCache :: "cache \<Rightarrow> cache" where
  "clearAllCache tenantCache = Map.empty"

definition getCachedQuery ::
  "string \<Rightarrow> ('w \<Rightarrow> (error + jsval) \<times> 'w) \<Rightarrow> int \<Rightarrow> int \<Rightarrow> cache \<Rightarrow> 'w \<Rightarrow> (error + jsval) \<times> cache \<times> 'w" where
  "getCachedQuery cacheKey queryFn ttl now queryCache w =
     (case (case queryCache cacheKey of
              None \<Rightarrow> None
            | Some cached \<Rightarrow> if expiry cached > now then Some cached else None) of
        Some cached \<Rightarrow> (Inr (data cached), queryCache, w)
      | None \<Rightarrow>
          (case queryFn w of
             (Inl e, w1) \<Rightarrow> (Inl e, queryCache, w1)
           | (Inr fetched, w1) \<Rightarrow>
               (Inr fetched, queryCache(cacheKey \<mapsto> \<lparr>data = fetched, expiry = now + ttl\<rparr>), w1)))"

text \<open>
  To count invocations, a fetch function is run in a world paired with a counter that
  each invocation increments.
\<close>

definition counted :: "('w \<Rightarrow> 'r \<times> 'w) \<Rightarrow> nat \<times> 'w \<Rightarrow> 'r \<times> (nat \<times> 'w)" where
  "counted fetchFn = (\<lambda>(n, w). case fetchFn w of (r, w1) \<Rightarrow> (r, (Suc n, w1)))"

section \<open>Audit service\<close>

datatype AuditAction =
  Aud_create | Aud_update | Aud_delete | Aud_read | Aud_login | Aud_logout | Aud_export

datatype AuditResource =
  Aud_tenant | Aud_product | Aud_order | Aud_customer | Aud_user | Aud_cart | Aud_payment

fun audit_action_text :: "AuditAction \<Rightarrow> string" where
  "audit_action_text Aud_create = ''create''"
| "audit_action_text Aud_update = ''update''"
| "audit_action_text Aud_delete = ''delete''"
| "audit_action_text Aud_read = ''read''"
| "audit_action_text Aud_login = ''login''"
| "audit_action_text Aud_logout = ''logout''"
| "audit_action_text Aud_export = ''export''"

fun audit_resource_text :: "AuditResource \<Rightarrow> string" where
  "audit_resource_text Aud_tenant = ''tenant''"
| "audit_resource_text Aud_product = ''product''"
| "audit_resource_text Aud_order = ''order''"
| "audit_resource_text Aud_customer = ''customer''"
| "audit_resource_text Aud_user = ''user''"
| "audit_resource_text Aud_cart = ''cart''"
| "audit_resource_text Aud_payment = ''payment''"

record AuditLogEntry =
  e_tenantId :: string
  e_userId :: "string option"
  e_action :: AuditAction
  e_resource :: AuditResource
  e_resourceId :: jsval
  e_ipAddress :: "string option"
  e_userAgent :: "string option"
  e_metadata :: jsval

text \<open>
  A row of \<open>audit_log\<close>. \<open>None\<close> is SQL \<open>NULL\<close>; \<open>a_metadata\<close> holds the value whose
  \<open>JSON.stringify\<close> text is stored.
\<close>

record AuditLogRow =
  a_id :: string
  a_tenant_id :: string
  a_user_id :: "string option"
  a_action :: AuditAction
  a_resource :: AuditResource
  a_resource_id :: jsval
  a_ip_address :: "string option"
  a_user_agent :: "string option"
  a_metadata :: jsval

text \<open>What the audit code can change: the \<open>audit_log\<close> table and the console.\<close>

record AuditWorld =
  audit_log :: "AuditLogRow list"
  console :: "string list"

text \<open>
  The \<open>INSERT\<close> of \<open>log\<close>. The datastore may refuse any write: \<open>db_error\<close> says
  for each row whether the write throws, and with what. A refused write changes nothing.
\<close>

definition insert_audit_log ::
  "(AuditLogRow \<Rightarrow> error option) \<Rightarrow> AuditLogRow \<Rightarrow> AuditWorld \<Rightarrow> (error + unit) \<times> AuditWorld" where
  "insert_audit_log db_error row w =
     (case db_error row of
        Some e \<Rightarrow> (Inl e, w)
      | None \<Rightarrow> (Inr (), w\<lparr>audit_log := audit_log w @ [row]\<rparr>))"

text \<open>The parameters of the \<open>INSERT\<close>; the generated id is a parameter.\<close>

definition insert_params :: "string \<Rightarrow> AuditLogEntry \<Rightarrow> AuditLogRow" where
  "insert_params rid entry =
     \<lparr>a_id = rid,
      a_tenant_id = e_tenantId entry,
      a_user_id = str_or (e_userId entry) None,
      a_action = e_action entry,
      a_resource = e_resource entry,
      a_resource_id = js_or (e_resourceId entry) None,
      a_ip_address = str_or (e_ipAddress entry) None,
      a_user_agent = str_or (e_userAgent entry) None,
      a_metadata = (if js_truthy (e_metadata entry) then e_metadata entry else None)\<rparr>"

text \<open>The \<open>try\<close> block of \<open>log\<close>.\<close>

definition log_try ::
  "(AuditLogRow \<Rightarrow> error option) \<Rightarrow> string \<Rightarrow> AuditLogEntry \<Rightarrow> AuditWorld \<Rightarrow>
     (error + unit) \<times> AuditWorld" where
  "log_try db_error rid entry w =
     (case insert_audit_log db_error (insert_params rid entry) w of
        (Inl e, w1) \<Rightarrow> (Inl e, w1)
      | (Inr u, w1) \<Rightarrow>
          (Inr (),
           w1\<lparr>console := console w1 @
                [''[Audit] '' @ audit_action_text (e_action entry) @ '' '' @
                 audit_resource_text (e_resource entry) @ '' by user '' @
                 (case str_or (e_userId entry) (Some ''system'') of None \<Rightarrow> [] | Some u \<Rightarrow> u) @
                 '' in tenant '' @ e_tenantId entry]\<rparr>))"

text \<open>\<open>log\<close>: the \<open>try\<close> block and its \<open>catch\<close>.\<close>

definition log ::
  "(AuditLogRow \<Rightarrow> error option) \<Rightarrow> string \<Rightarrow> AuditLogEntry \<Rightarrow> AuditWorld \<Rightarrow>
     (error + unit) \<times> AuditWorld" where
  "log db_error rid entry w =
     (case log_try db_error rid entry w of
        (Inl (Error msg), w1) \<Rightarrow>
          (Inr (), w1\<lparr>console := console w1 @ [''[Audit] Failed to log action: '' @ msg]\<rparr>)
      | (Inr u, w1) \<Rightarrow> (Inr u, w1))"

text \<open>The entry that \<open>logFromRequest\<close> assembles from the request.\<close>

definition request_entry ::
  "MedusaRequest \<Rightarrow> AuditAction \<Rightarrow> AuditResource \<Rightarrow> jsval \<Rightarrow> jsval \<Rightarrow> AuditLogEntry" where
  "request_entry req action resource resourceId meta =
     \<lparr>e_tenantId =
        (case str_or (tenantId req) (str_or (map_option t_id (tenant req)) (Some ''hq'')) of
           None \<Rightarrow> ''hq'' | Some t \<Rightarrow> t),
      e_userId = str_or (req_user_id req) (auth_actor_id req),
      e_action = action,
      e_resource = resource,
      e_resourceId = resourceId,
      e_ipAddress = str_or (ip req) (str_or (map_of (headers req) ''x-forwarded-for'') (remoteAddress req)),
      e_userAgent = map_of (headers req) ''user-agent'',
      e_metadata = meta\<rparr>"

definition logFromRequest ::
  "(AuditLogRow \<Rightarrow> error option) \<Rightarrow> string \<Rightarrow> MedusaRequest \<Rightarrow> AuditAction \<Rightarrow> AuditResource \<Rightarrow>
     jsval \<Rightarrow> jsval \<Rightarrow> AuditWorld \<Rightarrow> (error + unit) \<times> AuditWorld" where
  "logFromRequest db_error rid req action resource resourceId meta w =
     log db_error rid (request_entry req action resource resourceId meta) w"

section \<open>Audit middleware\<close>

record MedusaResponse =
  statusCode :: int

definition methodToAction :: "string \<Rightarrow> AuditAction option" where
  "methodToAction =
     map_of [(''POST'', Aud_create), (''PUT'', Aud_update), (''PATCH'', Aud_update),
             (''DELETE'', Aud_delete), (''GET'', Aud_read)]"

text \<open>
  \<open>extractResource\<close>: the leftmost match of \<open>/(admin|store)/\<close> followed by a non-empty
  segment, which the resource map then translates (segments that name a property of
  \<open>Object.prototype\<close> are outside this model).
\<close>

fun first_segment :: "string \<Rightarrow> string option" where
  "first_segment [] = None"
| "first_segment (c # cs) =
     (if (take 7 (c # cs) = ''/admin/'' \<or> take 7 (c # cs) = ''/store/'') \<and>
         takeWhile (\<lambda>x. x \<noteq> CHR ''/'') (drop 7 (c # cs)) \<noteq> []
      then Some (takeWhile (\<lambda>x. x \<noteq> CHR ''/'') (drop 7 (c # cs)))
      else first_segment cs)"

definition extractResource :: "string \<Rightarrow> AuditResource option" where
  "extractResource p =
     (case first_segment p of
        None \<Rightarrow> None
      | Some seg \<Rightarrow>
          map_of [(''tenants'', Aud_tenant), (''products'', Aud_product), (''orders'', Aud_order),
                  (''customers'', Aud_customer), (''users'', Aud_user), (''carts'', Aud_cart),
                  (''payments'', Aud_payment)] seg)"

text \<open>
  \<open>extractResourceId\<close>: the path ends in \<open>/segment/id\<close>, the id made of letters, digits,
  \<open>_\<close> and \<open>-\<close>.
\<close>

definition id_char :: "char \<Rightarrow> bool" where
  "id_char c =
     (let n = (of_char c :: nat) in
      (97 \<le> n \<and> n \<le> 122) \<or> (65 \<le> n \<and> n \<le> 90) \<or> (48 \<le> n \<and> n \<le> 57) \<or> n = 95 \<or> n = 45)"

definition extractResourceId :: "string \<Rightarrow> string option" where
  "extractResourceId p =
     (case rev (split_on CHR ''/'' p) of
        ident # seg # before # _ \<Rightarrow>
          if ident \<noteq> [] \<and> list_all id_char ident \<and> seg \<noteq> [] then Some ident else None
      | _ \<Rightarrow> None)"

definition REDACTED :: json where
  "REDACTED = JStr ''[REDACTED]''"

definition sensitiveFields :: "string list" where
  "sensitiveFields =
     [''password'', ''password_hash'', ''secret'', ''token'', ''api_key'', ''credit_card'',
      ''cvv'', ''ssn'']"

text \<open>\<open>sanitized[field] = '[REDACTED]'\<close> for a field the object has.\<close>

definition redact_field :: "string \<Rightarrow> (string \<times> json) list \<Rightarrow> (string \<times> json) list" where
  "redact_field field sanitized =
     (if field \<in> fst ` set sanitized
      then map (\<lambda>(k, v). if k = field then (k, REDACTED) else (k, v)) sanitized
      else sanitized)"

definition sanitizeBody :: "jsval \<Rightarrow> (string \<times> json) list" where
  "sanitizeBody b =
     (case b of
        None \<Rightarrow> []
      | Some v \<Rightarrow>
          if \<not> truthy v then []
          else (case v of
                  JObj fs \<Rightarrow> foldl (\<lambda>sanitized field. redact_field field sanitized) fs sensitiveFields
                | JArr xs \<Rightarrow>
                    foldl (\<lambda>sanitized field. redact_field field sanitized)
                      (object_entries (JArr xs)) sensitiveFields
                | _ \<Rightarrow> []))"

text \<open>
  The parts of the \<open>try\<close> block of \<open>logAudit\<close>: the resource id, taken from the URL
  or else from the response body, and the metadata object.
\<close>

definition finalResourceId :: "string option \<Rightarrow> jsval \<Rightarrow> jsval" where
  "finalResourceId resourceId responseBody =
     js_or (map_option JStr resourceId)
       (js_or (opt_get responseBody ''id'')
          (js_or (opt_get (opt_get responseBody ''data'') ''id'')
             (js_or (opt_get (opt_get responseBody ''tenant'') ''id'')
                (opt_get (opt_get responseBody ''product'') ''id''))))"

definition audit_metadata :: "MedusaRequest \<Rightarrow> MedusaResponse \<Rightarrow> AuditAction \<Rightarrow> (string \<times> json) list" where
  "audit_metadata req res action =
     (let meta0 = [(''method'', JStr (req_method req)), (''path'', JStr (path req)),
                   (''statusCode'', JNum (statusCode res))];
          meta1 = (case rbacCheck req of
                     None \<Rightarrow> meta0
                   | Some c \<Rightarrow> if truthy c then meta0 @ [(''rbacCheck'', c)] else meta0)
      in if action = Aud_create \<or> action = Aud_update
         then (let sanitizedBody = sanitizeBody (body req) in
               if length sanitizedBody > 0
               then meta1 @ [(''changes'', JObj sanitizedBody)]
               else meta1)
         else meta1)"

definition logAudit_try ::
  "(AuditLogRow \<Rightarrow> error option) \<Rightarrow> string \<Rightarrow> MedusaRequest \<Rightarrow> MedusaResponse \<Rightarrow> AuditAction \<Rightarrow>
     AuditResource \<Rightarrow> string option \<Rightarrow> jsval \<Rightarrow> AuditWorld \<Rightarrow> (error + unit) \<times> AuditWorld" where
  "logAudit_try db_error rid req res action resource resourceId responseBody w =
     logFromRequest db_error rid req action resource (finalResourceId resourceId responseBody)
       (Some (JObj (audit_metadata req res action))) w"

definition logAudit ::
  "(AuditLogRow \<Rightarrow> error option) \<Rightarrow> string \<Rightarrow> MedusaRequest \<Rightarrow> MedusaResponse \<Rightarrow> AuditAction \<Rightarrow>
     AuditResource \<Rightarrow> string option \<Rightarrow> jsval \<Rightarrow> AuditWorld \<Rightarrow> AuditWorld" where
  "logAudit db_error rid req res action resource resourceId responseBody w =
     (if statusCode res < 200 \<or> statusCode res \<ge> 300 then w
      else (case logAudit_try db_error rid req res action resource resourceId responseBody w of
              (Inl (Error msg), w1) \<Rightarrow>
                w1\<lparr>console := console w1 @ [''[Audit Middleware] Failed to log: '' @ msg]\<rparr>
            | (Inr u, w1) \<Rightarrow> w1))"

text \<open>
  \<open>auditMiddleware\<close> either passes the request on untouched (\<open>None\<close>) or replaces
  \<open>res.send\<close> and \<open>res.json\<close> by wrappers that hold the action, resource and resource
  id it extracted.
\<close>

definition auditMiddleware ::
  "MedusaRequest \<Rightarrow> (AuditAction \<times> AuditResource \<times> string option) option" where
  "auditMiddleware req =
     (if req_method req \<notin> set [''POST'', ''PUT'', ''PATCH'', ''DELETE''] then None
      else (case methodToAction (req_method req) of
              None \<Rightarrow> None
            | Some action \<Rightarrow>
                (case extractResource (path req) of
                   None \<Rightarrow> None
                 | Some resource \<Rightarrow> Some (action, resource, extractResourceId (path req)))))"

text \<open>
  What a call of \<open>res.send(body)\<close> or \<open>res.json(body)\<close> by the route handler does to
  the audit trail, after the middleware has run: the wrapper calls \<open>logAudit\<close> and then
  the original method.
\<close>

definition respond ::
  "(AuditLogRow \<Rightarrow> error option) \<Rightarrow> string \<Rightarrow> MedusaRequest \<Rightarrow> MedusaResponse \<Rightarrow> jsval \<Rightarrow>
     AuditWorld \<Rightarrow> AuditWorld" where
  "respond db_error rid req res responseBody w =
     (case auditMiddleware req of
        None \<Rightarrow> w
      | Some (action, resource, resourceId) \<Rightarrow>
          logAudit db_error rid req res action resource resourceId responseBody w)"

text \<open>\<open>logAuditAction\<close>, the helper for manual audit logging.\<close>

definition logAuditAction ::
  "(AuditLogRow \<Rightarrow> error option) \<Rightarrow> string \<Rightarrow> MedusaRequest \<Rightarrow> AuditAction \<Rightarrow> AuditResource \<Rightarrow>
     jsval \<Rightarrow> jsval \<Rightarrow> AuditWorld \<Rightarrow> (error + unit) \<times> AuditWorld" where
  "logAuditAction db_error rid req action resource resourceId meta w =
     logFromRequest db_error rid req action resource resourceId meta w"

section \<open>Tenant-scoped service helper\<close>

definition verifyTenantOwnership :: "MedusaRequest \<Rightarrow> jsval \<Rightarrow> string \<Rightarrow> error + unit" where
  "verifyTenantOwnership req entity entityType =
     (let currentTenantId = getTenantIdFromRequest req;
          entityTenantId = opt_get entity ''tenant_id''
      in case currentTenantId of
           None \<Rightarrow> Inl (Error ''No tenant context found'')
         | Some current \<Rightarrow>
             (case entityTenantId of
                None \<Rightarrow> Inl (Error (entityType @ '' does not have tenant_id''))
              | Some owner \<Rightarrow>
                  if \<not> truthy owner then Inl (Error (entityType @ '' does not have tenant_id''))
                  else if owner \<noteq> JStr current
                  then Inl (Error (''Access denied: '' @ entityType @ '' belongs to tenant '' @
                                   quoted (js_to_string owner) @ '' but current tenant is '' @
                                   quoted current))
                  else Inr ()))"

text \<open>
  The service that \<open>TenantScopedService\<close> wraps is a parameter: its operations run in a
  state \<open>'s\<close>, may throw, and return a value. \<open>svc_name\<close> is
  \<open>service.constructor.name\<close>.
\<close>

record 's WrappedService =
  svc_name :: string
  svc_list :: "(string \<times> json) list \<Rightarrow> jsval \<Rightarrow> 's \<Rightarrow> (error + jsval) \<times> 's"
  svc_retrieve :: "string \<Rightarrow> jsval \<Rightarrow> 's \<Rightarrow> (error + jsval) \<times> 's"
  svc_create :: "(string \<times> json) list \<Rightarrow> 's \<Rightarrow> (error + jsval) \<times> 's"
  svc_update :: "string \<Rightarrow> (string \<times> json) list \<Rightarrow> 's \<Rightarrow> (error + jsval) \<times> 's"
  svc_delete :: "string \<Rightarrow> 's \<Rightarrow> (error + jsval) \<times> 's"

definition retrieve ::
  "MedusaRequest \<Rightarrow> 's WrappedService \<Rightarrow> string \<Rightarrow> jsval \<Rightarrow> 's \<Rightarrow> (error + jsval) \<times> 's" where
  "retrieve req service ident config s =
     (case svc_retrieve service ident config s of
        (Inl e, s1) \<Rightarrow> (Inl e, s1)
      | (Inr entity, s1) \<Rightarrow>
          (case verifyTenantOwnership req entity (svc_name service) of
             Inl e \<Rightarrow> (Inl e, s1)
           | Inr u \<Rightarrow> (Inr entity, s1)))"

definition update ::
  "MedusaRequest \<Rightarrow> 's WrappedService \<Rightarrow> string \<Rightarrow> (string \<times> json) list \<Rightarrow> 's \<Rightarrow>
     (error + jsval) \<times> 's" where
  "update req service ident changes s =
     (case retrieve req service ident (Some (JObj [])) s of
        (Inl e, s1) \<Rightarrow> (Inl e, s1)
      | (Inr entity, s1) \<Rightarrow> svc_update service ident changes s1)"

definition delete ::
  "MedusaRequest \<Rightarrow> 's WrappedService \<Rightarrow> string \<Rightarrow> 's \<Rightarrow> (error + jsval) \<times> 's" where
  "delete req service ident s =
     (case retrieve req service ident (Some (JObj [])) s of
        (Inl e, s1) \<Rightarrow> (Inl e, s1)
      | (Inr entity, s1) \<Rightarrow> svc_delete service ident s1)"

section \<open>Example data\<close>

definition ex_assignment :: "string \<Rightarrow> string \<Rightarrow> Role \<Rightarrow> AdminUser" where
  "ex_assignment u t role =
     \<lparr>au_id = ''admin_1'', user_id = u, tenant_id = Some t, au_role = role,
      email = ''user@example.com'', is_active = True, created_at = 0, updated_at = 0\<rparr>"

definition ex_policy_refund_EU :: RbacPolicy where
  "ex_policy_refund_EU =
     \<lparr>p_id = ''policy_1'', p_role = OrderOps, p_resource = Res_order, p_actions = [Act_refund],
      p_conditions = Some (JObj [(''region'', JStr ''EU'')]), p_version = 1,
      effective_from = 0, effective_until = None\<rparr>"

definition ex_policy_catalog :: RbacPolicy where
  "ex_policy_catalog =
     \<lparr>p_id = ''policy_2'', p_role = CatalogMgr, p_resource = Res_product,
      p_actions = [Act_create, Act_read, Act_update], p_conditions = None, p_version = 1,
      effective_from = 0, effective_until = None\<rparr>"

definition ex_db_orderops :: Database where
  "ex_db_orderops =
     \<lparr>rbac_policy = [ex_policy_refund_EU], admin_user = [ex_assignment ''u1'' ''t1'' OrderOps]\<rparr>"

definition ex_db_admin :: Database where
  "ex_db_admin = \<lparr>rbac_policy = [], admin_user = [ex_assignment ''root'' ''hq'' GlobalAdmin]\<rparr>"

definition ex_db_catalog :: Database where
  "ex_db_catalog = \<lparr>rbac_policy = [ex_policy_catalog], admin_user = []\<rparr>"

definition ex_request :: MedusaRequest where
  "ex_request =
     \<lparr>headers = [], req_method = ''GET'', path = ''/'', body = None, ip = None, remoteAddress = None,
      req_user_id = None, auth_actor_id = None, tenant = None, tenantId = None,
      tenantDetectionMethod = None, rbacCheck = None\<rparr>"

definition ex_hq :: Tenant where
  "ex_hq = \<lparr>t_id = ''hq'', t_name = ''Impact HQ'', t_domain = ''impactnutrition.com.tn'',
            t_subdomain = None\<rparr>"

definition ex_paris :: Tenant where
  "ex_paris = \<lparr>t_id = ''paris'', t_name = ''Impact Paris'', t_domain = ''paris.impactnutrition.com'',
               t_subdomain = Some ''paris''\<rparr>"

definition ex_tenant_service :: "unit TenantService" where
  "ex_tenant_service =
     \<lparr>getTenantById =
        (\<lambda>i s. (Inr (if i = ''hq'' then Some ex_hq else if i = ''paris'' then Some ex_paris else None), s)),
      getTenantByDomain =
        (\<lambda>d s. (Inr (if d = ''paris'' then Some ex_paris
                      else if d = ''impactnutrition.com.tn'' then Some ex_hq else None), s))\<rparr>"

definition ex_fetch_paris :: "unit \<Rightarrow> (error + jsval) \<times> unit" where
  "ex_fetch_paris w = (Inr (Some (JObj [(''id'', JStr ''paris'')])), w)"

definition ex_fetch_null :: "unit \<Rightarrow> (error + jsval) \<times> unit" where
  "ex_fetch_null w = (Inr (Some JNull), w)"

definition ex_empty_cache :: cache where
  "ex_empty_cache = Map.empty"

definition ex_datastore_up :: "AuditLogRow \<Rightarrow> error option" where
  "ex_datastore_up row = None"

definition ex_datastore_down :: "AuditLogRow \<Rightarrow> error option" where
  "ex_datastore_down row = Some (Error ''connection refused'')"

definition ex_world :: AuditWorld where
  "ex_world = \<lparr>audit_log = [], console = []\<rparr>"

definition ex_entry :: AuditLogEntry where
  "ex_entry =
     \<lparr>e_tenantId = ''paris'', e_userId = Some ''user_1'', e_action = Aud_update,
      e_resource = Aud_product, e_resourceId = Some (JStr ''prod_1''), e_ipAddress = None,
      e_userAgent = None, e_metadata = None\<rparr>"

definition ex_create_user :: MedusaRequest where
  "ex_create_user =
     ex_request\<lparr>req_method := ''POST'', path := ''/admin/users'',
       body := Some (JObj [(''email'', JStr ''a@example.com''), (''password'', JStr ''hunter2'')]),
       tenantId := Some ''paris''\<rparr>"

definition ex_service :: "string list WrappedService" where
  "ex_service =
     \<lparr>svc_name = ''ProductService'',
      svc_list = (\<lambda>filters config s. (Inr (Some (JArr [])), s @ [''list''])),
      svc_retrieve =
        (\<lambda>ident config s.
           (Inr (Some (JObj [(''id'', JStr ident), (''tenant_id'', JStr ''lyon'')])), s @ [''retrieve''])),
      svc_create = (\<lambda>fields s. (Inr (Some (JObj fields)), s @ [''create''])),
      svc_update = (\<lambda>ident fields s. (Inr (Some (JObj fields)), s @ [''update''])),
      svc_delete = (\<lambda>ident s. (Inr None, s @ [''delete'']))\<rparr>"

section \<open>The policy cache and the permission loops\<close>

lemma map_of_group_by_role:
  "map_of (group_by_role ps c) r =
     (if filter (\<lambda>p. p_role p = r) ps = [] then map_of c r
      else Some ((case map_of c r of None \<Rightarrow> [] | Some xs \<Rightarrow> xs) @ filter (\<lambda>p. p_role p = r) ps))"
proof (induction ps arbitrary: c)
  case Nil
  then show ?case by simp
next
  case (Cons p ps)
  show ?case
    by (simp add: Cons.IH Let_def update_conv' split: option.splits)
qed

lemma conditions_hold_iff:
  "conditions_hold es ctx \<longleftrightarrow> list_all (\<lambda>e. strict_eq (map_of ctx (fst e)) (snd e)) es"
  by (induction es ctx rule: conditions_hold.induct) auto

lemma policies_grant_iff:
  "policies_grant ps r a ctx \<longleftrightarrow>
     list_ex (\<lambda>p. (p_resource p = Res_star \<or> p_resource p = r) \<and>
              (Act_star \<in> set (p_actions p) \<or> a \<in> set (p_actions p)) \<and>
              (\<not> js_truthy (p_conditions p) \<or> evaluateConditions (p_conditions p) ctx)) ps"
  by (induction ps r a ctx rule: policies_grant.induct) auto

lemma evaluateConditions_no_context: "evaluateConditions c None"
  by (simp add: evaluateConditions_def split: option.splits)

lemma loadPolicies_idem:
  "loadPolicies db now (loadPolicies db now svc) = loadPolicies db now svc"
  by (simp add: loadPolicies_def CACHE_TTL_def)

lemma hasPermission_snd: "snd (hasPermission db now svc role r a ctx) = loadPolicies db now svc"
  by (simp add: hasPermission_def Let_def)

lemma hasPermission_fst_load:
  "fst (hasPermission db now (loadPolicies db now svc) role r a ctx) = fst (hasPermission db now svc role r a ctx)"
  by (simp add: hasPermission_def Let_def loadPolicies_idem)

lemma roles_grant_iff:
  "fst (roles_grant db now svc rs r a) \<longleftrightarrow>
     list_ex (\<lambda>x. fst (hasPermission db now svc (fst x) r a None)) rs"
proof (induction rs arbitrary: svc)
  case Nil
  then show ?case by simp
next
  case (Cons x rs)
  obtain g s1 where h: "hasPermission db now svc (fst x) r a None = (g, s1)"
    by (cases "hasPermission db now svc (fst x) r a None")
  have s1: "s1 = loadPolicies db now svc"
    using hasPermission_snd [of db now svc "fst x" r a None] h by simp
  show ?case
    using h by (simp add: Cons.IH s1 hasPermission_fst_load)
qed

lemma cache_get_reload:
  assumes "length (policyCache svc) = 0 \<or> cacheExpiry svc \<le> now"
  shows "set (cache_get (loadPolicies db now svc) r) =
           {p \<in> set (rbac_policy db). in_force now p \<and> p_role p = r}"
proof -
  have l: "loadPolicies db now svc =
             \<lparr>policyCache = group_by_role (select_policies db now) [], cacheExpiry = now + CACHE_TTL\<rparr>"
    using assms by (auto simp: loadPolicies_def)
  have s: "set (select_policies db now) = {p \<in> set (rbac_policy db). in_force now p}"
    by (simp add: select_policies_def)
  have "set (cache_get (loadPolicies db now svc) r) =
          set (filter (\<lambda>p. p_role p = r) (select_policies db now))"
    by (simp add: l cache_get_def map_of_group_by_role filter_empty_conv)
  then show ?thesis using s by auto
qed

lemma cache_get_live:
  assumes "0 < length (policyCache svc)" "now < cacheExpiry svc"
  shows "cache_get (loadPolicies db now svc) r = cache_get svc r"
  using assms by (simp add: loadPolicies_def)

lemma verifyAccess_allowed_by_role:
  assumes row: "row \<in> set (admin_user db)" "user_id row = u" "is_active row"
    and acc: "tenant_id row = Some t \<or> au_role row = GlobalAdmin"
    and perm: "fst (hasPermission db now svc (au_role row) r a None)"
  shows "fst (verifyAccess db now svc u t r a) = \<lparr>allowed = True, reason = None\<rparr>"
proof -
  let ?rs = "getUserRoles db u"
  have mem: "(au_role row, tenant_id row) \<in> set ?rs"
    using row by (auto simp: getUserRoles_def)
  then have ne: "length ?rs \<noteq> 0" by auto
  have can: "canAccessTenant db u t"
  proof (cases "au_role row = GlobalAdmin")
    case True
    then have "\<exists>x\<in>set ?rs. fst x = GlobalAdmin" using mem by force
    then show ?thesis by (simp add: canAccessTenant_def Let_def list_ex_iff)
  next
    case False
    then have "\<exists>x\<in>set ?rs. snd x = Some t" using mem acc by force
    then show ?thesis by (simp add: canAccessTenant_def Let_def list_ex_iff)
  qed
  have "list_ex (\<lambda>x. fst (hasPermission db now svc (fst x) r a None)) ?rs"
    unfolding list_ex_iff using mem perm by force
  then have g: "fst (roles_grant db now svc ?rs r a)"
    by (simp add: roles_grant_iff)
  obtain g1 s1 where rg: "roles_grant db now svc ?rs r a = (g1, s1)"
    by (cases "roles_grant db now svc ?rs r a")
  with g have "g1" by simp
  then show ?thesis
    using ne can rg by (simp add: verifyAccess_def Let_def)
qed

lemma hasPermission_by_policy:
  assumes "p \<in> set (cache_get (loadPolicies db now svc) role)"
    and "p_resource p = Res_star \<or> p_resource p = r"
    and "Act_star \<in> set (p_actions p) \<or> a \<in> set (p_actions p)"
  shows "fst (hasPermission db now svc role r a None)"
proof -
  have "policies_grant (cache_get (loadPolicies db now svc) role) r a None"
    unfolding policies_grant_iff list_ex_iff
    using assms evaluateConditions_no_context by blast
  then show ?thesis by (simp add: hasPermission_def Let_def)
qed

section \<open>Assigning and removing users\<close>

lemma assign_has_row:
  "\<exists>row\<in>set (admin_user (assignUserToTenant db rid now u t role mail)).
     user_id row = u \<and> tenant_id row = Some t \<and> is_active row \<and> au_role row = role"
proof (cases "list_ex (\<lambda>row. user_id row = u \<and> tenant_id row = Some t) (admin_user db)")
  case True
  then obtain old where o: "old \<in> set (admin_user db)" "user_id old = u" "tenant_id old = Some t"
    by (auto simp: list_ex_iff)
  let ?new = "old\<lparr>au_role := role, is_active := True, updated_at := now\<rparr>"
  let ?f = "\<lambda>row. if user_id row = u \<and> tenant_id row = Some t
                  then row\<lparr>au_role := role, is_active := True, updated_at := now\<rparr> else row"
  have eq: "admin_user (assignUserToTenant db rid now u t role mail) = map ?f (admin_user db)"
    using True by (simp add: assignUserToTenant_def)
  have "?f old \<in> ?f ` set (admin_user db)"
    using o(1) by (rule imageI)
  moreover have "?f old = ?new" using o by simp
  ultimately have "?new \<in> set (admin_user (assignUserToTenant db rid now u t role mail))"
    unfolding eq set_map by simp
  moreover have "user_id ?new = u \<and> tenant_id ?new = Some t \<and> is_active ?new \<and> au_role ?new = role"
    using o by simp
  ultimately show ?thesis by (rule rev_bexI)
next
  case False
  then show ?thesis by (simp add: assignUserToTenant_def)
qed

lemma assign_policies: "rbac_policy (assignUserToTenant db rid now u t role mail) = rbac_policy db"
  by (simp add: assignUserToTenant_def)

lemma assign_active_rows:
  assumes "row \<in> set (admin_user (assignUserToTenant db rid now u t role mail))"
    "user_id row = u" "is_active row" "tenant_id row \<noteq> Some t"
  shows "\<exists>old\<in>set (admin_user db). user_id old = u \<and> is_active old \<and> tenant_id old = tenant_id row"
proof (cases "list_ex (\<lambda>row. user_id row = u \<and> tenant_id row = Some t) (admin_user db)")
  case True
  let ?f = "\<lambda>row. if user_id row = u \<and> tenant_id row = Some t
                  then row\<lparr>au_role := role, is_active := True, updated_at := now\<rparr> else row"
  have eq: "admin_user (assignUserToTenant db rid now u t role mail) = map ?f (admin_user db)"
    using True by (simp add: assignUserToTenant_def)
  obtain old where o: "old \<in> set (admin_user db)" "row = ?f old"
    using assms(1) unfolding eq set_map by blast
  show ?thesis
  proof (cases "user_id old = u \<and> tenant_id old = Some t")
    case True
    then show ?thesis using o assms(4) by simp
  next
    case False
    then have "row = old" using o(2) by (simp only: if_False)
    then show ?thesis using o(1) assms by blast
  qed
next
  case False
  then have "admin_user (assignUserToTenant db rid now u t role mail) =
               admin_user db @ [\<lparr>au_id = rid, user_id = u, tenant_id = Some t, au_role = role,
                 email = mail, is_active = True, created_at = now, updated_at = now\<rparr>]"
    by (simp add: assignUserToTenant_def)
  with assms(1) have "row \<in> set (admin_user db) \<or> tenant_id row = Some t"
    by auto
  then show ?thesis using assms by blast
qed

lemma remove_rows:
  assumes "row \<in> set (admin_user (removeUserFromTenant db now u t))" "is_active row"
  shows "row \<in> set (admin_user db) \<and> \<not> (user_id row = u \<and> tenant_id row = Some t)"
proof -
  let ?f = "\<lambda>row. if user_id row = u \<and> tenant_id row = Some t
                  then row\<lparr>is_active := False, updated_at := now\<rparr> else row"
  have eq: "admin_user (removeUserFromTenant db now u t) = map ?f (admin_user db)"
    by (simp add: removeUserFromTenant_def)
  obtain old where o: "old \<in> set (admin_user db)" "row = ?f old"
    using assms(1) unfolding eq set_map by blast
  show ?thesis
  proof (cases "user_id old = u \<and> tenant_id old = Some t")
    case True
    then show ?thesis using o assms(2) by simp
  next
    case False
    then have "row = old" using o(2) by (simp only: if_False)
    then show ?thesis using o(1) False by simp
  qed
qed

lemma remove_no_roles:
  assumes "\<forall>row\<in>set (admin_user db). user_id row = u \<and> is_active row \<longrightarrow> tenant_id row = Some t"
  shows "getUserRoles (removeUserFromTenant db now u t) u = []"
proof -
  have "\<forall>row\<in>set (admin_user (removeUserFromTenant db now u t)). \<not> (user_id row = u \<and> is_active row)"
    using assms remove_rows by blast
  then show ?thesis by (simp add: getUserRoles_def filter_empty_conv)
qed

lemma verifyAccess_no_roles:
  "getUserRoles db u = [] \<Longrightarrow>
     fst (verifyAccess db now svc u t r a) = \<lparr>allowed = False, reason = Some ''No roles assigned to user''\<rparr>"
  by (simp add: verifyAccess_def)

section \<open>Claims about the permission engine\<close>

text \<open>
  C3. A user who holds an active role assignment with role \<open>GlobalAdmin\<close> is allowed by
  \<open>verifyAccess\<close> for every tenant, resource and action, whatever the policy table and
  the policy cache hold, also when the policy table is empty.
\<close>

theorem C3_GlobalAdmin_always_allowed:
  assumes "\<exists>row\<in>set (admin_user db). user_id row = u \<and> is_active row \<and> au_role row = GlobalAdmin"
  shows "fst (verifyAccess db now svc u t r a) = \<lparr>allowed = True, reason = None\<rparr>"
proof -
  from assms obtain row where row: "row \<in> set (admin_user db)" "user_id row = u" "is_active row"
    "au_role row = GlobalAdmin" by blast
  have "fst (hasPermission db now svc (au_role row) r a None)"
    using row(4) by (simp add: hasPermission_def Let_def)
  then show ?thesis
    using row verifyAccess_allowed_by_role [of row db u t now svc r a] by simp
qed

theorem C3_witness:
  "rbac_policy ex_db_admin = [] \<and>
   fst (verifyAccess ex_db_admin 1000 new_RbacService ''root'' ''paris'' Res_order Act_refund) =
     \<lparr>allowed = True, reason = None\<rparr>"
  using C3_GlobalAdmin_always_allowed [of ex_db_admin "''root''" 1000 new_RbacService "''paris''" Res_order Act_refund]
  by (simp add: ex_db_admin_def ex_assignment_def)

lemma policy_visible:
  assumes "((length (policyCache svc) = 0 \<or> cacheExpiry svc \<le> now) \<and>
             p \<in> set (rbac_policy db) \<and> in_force now p) \<or>
           (0 < length (policyCache svc) \<and> now < cacheExpiry svc \<and> p \<in> set (cache_get svc (p_role p)))"
  shows "p \<in> set (cache_get (loadPolicies db now svc) (p_role p))"
proof -
  from assms consider
      (reload) "length (policyCache svc) = 0 \<or> cacheExpiry svc \<le> now"
               "p \<in> set (rbac_policy db)" "in_force now p"
    | (live) "0 < length (policyCache svc)" "now < cacheExpiry svc" "p \<in> set (cache_get svc (p_role p))"
    by blast
  then show ?thesis
  proof cases
    case reload
    then show ?thesis by (simp add: cache_get_reload)
  next
    case live
    then show ?thesis by (simp add: cache_get_live)
  qed
qed

text \<open>
  C8. Role revocation. A policy grants \<open>CatalogMgr\<close> the action \<open>create\<close> on
  \<open>product\<close>, and the engine sees it: either its cache is empty or expired at the call
  and the policy is in force in the table, or its live cache holds the policy. After
  \<open>u1\<close> is assigned \<open>CatalogMgr\<close> on \<open>t1\<close>, \<open>verifyAccess\<close> allows
  \<open>create\<close> on \<open>product\<close>. After that assignment is deactivated, and with no other
  active assignment of \<open>u1\<close>, the same call is denied with the reason
  \<open>No roles assigned to user\<close>, whatever the state of the engine.
\<close>

theorem C8_role_revocation:
  assumes pol: "p_role p = CatalogMgr" "p_resource p = Res_product" "Act_create \<in> set (p_actions p)"
    and visible:
      "((length (policyCache svc) = 0 \<or> cacheExpiry svc \<le> now1) \<and>
         p \<in> set (rbac_policy db) \<and> in_force now1 p) \<or>
       (0 < length (policyCache svc) \<and> now1 < cacheExpiry svc \<and> p \<in> set (cache_get svc CatalogMgr))"
    and others:
      "\<forall>row\<in>set (admin_user db). user_id row = u1 \<and> is_active row \<longrightarrow> tenant_id row = Some t1"
  shows
    "fst (verifyAccess (assignUserToTenant db rid now0 u1 t1 CatalogMgr mail)
            now1 svc u1 t1 Res_product Act_create) = \<lparr>allowed = True, reason = None\<rparr> \<and>
     fst (verifyAccess
            (removeUserFromTenant (assignUserToTenant db rid now0 u1 t1 CatalogMgr mail) now2 u1 t1)
            now3 svc2 u1 t1 Res_product Act_create) =
       \<lparr>allowed = False, reason = Some ''No roles assigned to user''\<rparr>"
proof
  let ?db1 = "assignUserToTenant db rid now0 u1 t1 CatalogMgr mail"
  obtain row where row: "row \<in> set (admin_user ?db1)" "user_id row = u1" "tenant_id row = Some t1"
    "is_active row" "au_role row = CatalogMgr"
    using assign_has_row [of db rid now0 u1 t1 CatalogMgr mail] by blast
  have "p \<in> set (cache_get (loadPolicies ?db1 now1 svc) (p_role p))"
    using visible pol(1) by (intro policy_visible) (simp add: assign_policies)
  then have "fst (hasPermission ?db1 now1 svc (au_role row) Res_product Act_create None)"
    using pol row(5) by (intro hasPermission_by_policy [of p]) simp_all
  then show "fst (verifyAccess ?db1 now1 svc u1 t1 Res_product Act_create) =
               \<lparr>allowed = True, reason = None\<rparr>"
    using row by (intro verifyAccess_allowed_by_role [of row]) simp_all
next
  let ?db1 = "assignUserToTenant db rid now0 u1 t1 CatalogMgr mail"
  have "\<forall>row\<in>set (admin_user ?db1). user_id row = u1 \<and> is_active row \<longrightarrow> tenant_id row = Some t1"
  proof (intro ballI impI)
    fix row assume r: "row \<in> set (admin_user ?db1)" "user_id row = u1 \<and> is_active row"
    show "tenant_id row = Some t1"
    proof (rule ccontr)
      assume "tenant_id row \<noteq> Some t1"
      then obtain old where "old \<in> set (admin_user db)" "user_id old = u1" "is_active old"
        "tenant_id old = tenant_id row"
        using assign_active_rows [of row db rid now0 u1 t1 CatalogMgr mail] r by blast
      then show False using others \<open>tenant_id row \<noteq> Some t1\<close> by auto
    qed
  qed
  then have "getUserRoles (removeUserFromTenant ?db1 now2 u1 t1) u1 = []"
    by (rule remove_no_roles)
  then show "fst (verifyAccess (removeUserFromTenant ?db1 now2 u1 t1) now3 svc2 u1 t1
               Res_product Act_create) =
               \<lparr>allowed = False, reason = Some ''No roles assigned to user''\<rparr>"
    by (rule verifyAccess_no_roles)
qed

theorem C8_witness:
  "fst (verifyAccess (assignUserToTenant ex_db_catalog ''admin_1'' 10 ''u1'' ''t1'' CatalogMgr ''u1@example.com'')
          20 new_RbacService ''u1'' ''t1'' Res_product Act_create) = \<lparr>allowed = True, reason = None\<rparr> \<and>
   fst (verifyAccess
          (removeUserFromTenant
             (assignUserToTenant ex_db_catalog ''admin_1'' 10 ''u1'' ''t1'' CatalogMgr ''u1@example.com'')
             30 ''u1'' ''t1'')
          40 new_RbacService ''u1'' ''t1'' Res_product Act_create) =
     \<lparr>allowed = False, reason = Some ''No roles assigned to user''\<rparr>"
  using C8_role_revocation [of ex_policy_catalog new_RbacService 20 ex_db_catalog "''u1''" "''t1''"
      "''admin_1''" 10 "''u1@example.com''" 30 40 new_RbacService]
  by (simp add: ex_policy_catalog_def ex_db_catalog_def new_RbacService_def in_force_def)

text \<open>
  C1, as the code has it. For a role other than \<open>GlobalAdmin\<close>, \<open>hasPermission\<close>
  grants exactly when some policy cached for the role applies to the resource and the
  action and either carries no conditions, or no context is supplied, or every condition
  entry strictly equals the supplied context's value for its key. A policy with a key
  that the supplied context lacks or holds with another value is skipped, and a later
  policy can still grant. \<open>verifyAccess\<close> supplies no context, so there a policy that
  applies grants whatever its conditions are.
\<close>

theorem C1_conditions_against_supplied_context:
  "(role \<noteq> GlobalAdmin \<longrightarrow>
      fst (hasPermission db now svc role r a ctx) =
        list_ex
          (\<lambda>p. (p_resource p = Res_star \<or> p_resource p = r) \<and>
               (Act_star \<in> set (p_actions p) \<or> a \<in> set (p_actions p)) \<and>
               (case p_conditions p of
                  None \<Rightarrow> True
                | Some c \<Rightarrow>
                    \<not> truthy c \<or>
                    (case ctx of
                       None \<Rightarrow> True
                     | Some cx \<Rightarrow>
                         list_all (\<lambda>e. strict_eq (map_of cx (fst e)) (snd e)) (object_entries c))))
          (cache_get (loadPolicies db now svc) role)) \<and>
   (row \<in> set (admin_user db) \<and> user_id row = u \<and> is_active row \<and> tenant_id row = Some t \<and>
    q \<in> set (cache_get (loadPolicies db now svc) (au_role row)) \<and>
    (p_resource q = Res_star \<or> p_resource q = r) \<and>
    (Act_star \<in> set (p_actions q) \<or> a \<in> set (p_actions q))
    \<longrightarrow> fst (verifyAccess db now svc u t r a) = \<lparr>allowed = True, reason = None\<rparr>)"
proof (intro conjI impI)
  assume "role \<noteq> GlobalAdmin"
  then have "fst (hasPermission db now svc role r a ctx) =
               policies_grant (cache_get (loadPolicies db now svc) role) r a ctx"
    by (simp add: hasPermission_def Let_def)
  also have "\<dots> =
        list_ex
          (\<lambda>p. (p_resource p = Res_star \<or> p_resource p = r) \<and>
               (Act_star \<in> set (p_actions p) \<or> a \<in> set (p_actions p)) \<and>
               (case p_conditions p of
                  None \<Rightarrow> True
                | Some c \<Rightarrow>
                    \<not> truthy c \<or>
                    (case ctx of
                       None \<Rightarrow> True
                     | Some cx \<Rightarrow>
                         list_all (\<lambda>e. strict_eq (map_of cx (fst e)) (snd e)) (object_entries c))))
          (cache_get (loadPolicies db now svc) role)"
    unfolding policies_grant_iff list_ex_iff
    by (intro bex_cong refl) (auto simp: evaluateConditions_def conditions_hold_iff split: option.splits)
  finally show "fst (hasPermission db now svc role r a ctx) =
        list_ex
          (\<lambda>p. (p_resource p = Res_star \<or> p_resource p = r) \<and>
               (Act_star \<in> set (p_actions p) \<or> a \<in> set (p_actions p)) \<and>
               (case p_conditions p of
                  None \<Rightarrow> True
                | Some c \<Rightarrow>
                    \<not> truthy c \<or>
                    (case ctx of
                       None \<Rightarrow> True
                     | Some cx \<Rightarrow>
                         list_all (\<lambda>e. strict_eq (map_of cx (fst e)) (snd e)) (object_entries c))))
          (cache_get (loadPolicies db now svc) role)" .
next
  assume h: "row \<in> set (admin_user db) \<and> user_id row = u \<and> is_active row \<and> tenant_id row = Some t \<and>
    q \<in> set (cache_get (loadPolicies db now svc) (au_role row)) \<and>
    (p_resource q = Res_star \<or> p_resource q = r) \<and>
    (Act_star \<in> set (p_actions q) \<or> a \<in> set (p_actions q))"
  then have "fst (hasPermission db now svc (au_role row) r a None)"
    by (intro hasPermission_by_policy [of q]) simp_all
  then show "fst (verifyAccess db now svc u t r a) = \<lparr>allowed = True, reason = None\<rparr>"
    using h by (intro verifyAccess_allowed_by_role [of row]) simp_all
qed

theorem C1_witness:
  "fst (hasPermission ex_db_orderops 1000 new_RbacService OrderOps Res_order Act_refund
          (Some [(''region'', JStr ''EU'')])) \<and>
   \<not> fst (hasPermission ex_db_orderops 1000 new_RbacService OrderOps Res_order Act_refund
            (Some [(''region'', JStr ''US'')])) \<and>
   \<not> fst (hasPermission ex_db_orderops 1000 new_RbacService OrderOps Res_order Act_refund (Some [])) \<and>
   fst (hasPermission ex_db_orderops 1000 new_RbacService OrderOps Res_order Act_refund None) \<and>
   fst (verifyAccess ex_db_orderops 1000 new_RbacService ''u1'' ''t1'' Res_order Act_refund) =
     \<lparr>allowed = True, reason = None\<rparr>"
proof -
  have c: "cache_get (loadPolicies ex_db_orderops 1000 new_RbacService) OrderOps = [ex_policy_refund_EU]"
    by code_simp
  have row: "ex_assignment ''u1'' ''t1'' OrderOps \<in> set (admin_user ex_db_orderops)"
    by (simp add: ex_db_orderops_def)
  have 1: "fst (hasPermission ex_db_orderops 1000 new_RbacService OrderOps Res_order Act_refund
                  (Some [(''region'', JStr ''EU'')]))"
    using C1_conditions_against_supplied_context [of OrderOps ex_db_orderops 1000 new_RbacService
        Res_order Act_refund "Some [(''region'', JStr ''EU'')]"]
    by (simp add: c ex_policy_refund_EU_def)
  have 2: "\<not> fst (hasPermission ex_db_orderops 1000 new_RbacService OrderOps Res_order Act_refund
                    (Some [(''region'', JStr ''US'')]))"
    using C1_conditions_against_supplied_context [of OrderOps ex_db_orderops 1000 new_RbacService
        Res_order Act_refund "Some [(''region'', JStr ''US'')]"]
    by (simp add: c ex_policy_refund_EU_def)
  have 3: "\<not> fst (hasPermission ex_db_orderops 1000 new_RbacService OrderOps Res_order Act_refund
                    (Some []))"
    using C1_conditions_against_supplied_context [of OrderOps ex_db_orderops 1000 new_RbacService
        Res_order Act_refund "Some []"]
    by (simp add: c ex_policy_refund_EU_def)
  have 4: "fst (hasPermission ex_db_orderops 1000 new_RbacService OrderOps Res_order Act_refund None)"
    using C1_conditions_against_supplied_context [of OrderOps ex_db_orderops 1000 new_RbacService
        Res_order Act_refund None]
    by (simp add: c ex_policy_refund_EU_def)
  have mem: "ex_policy_refund_EU \<in> set (cache_get (loadPolicies ex_db_orderops 1000 new_RbacService) OrderOps)"
    by (simp add: c)
  have pol: "p_resource ex_policy_refund_EU = Res_order" "Act_refund \<in> set (p_actions ex_policy_refund_EU)"
    by (simp_all add: ex_policy_refund_EU_def)
  have asg: "user_id (ex_assignment ''u1'' ''t1'' OrderOps) = ''u1''"
    "is_active (ex_assignment ''u1'' ''t1'' OrderOps)"
    "tenant_id (ex_assignment ''u1'' ''t1'' OrderOps) = Some ''t1''"
    "au_role (ex_assignment ''u1'' ''t1'' OrderOps) = OrderOps"
    by (simp_all add: ex_assignment_def)
  have 5: "fst (verifyAccess ex_db_orderops 1000 new_RbacService ''u1'' ''t1'' Res_order Act_refund) =
             \<lparr>allowed = True, reason = None\<rparr>"
    using C1_conditions_against_supplied_context [of OrderOps ex_db_orderops 1000 new_RbacService
        Res_order Act_refund None "ex_assignment ''u1'' ''t1'' OrderOps" "''u1''" "''t1''"
        ex_policy_refund_EU] row mem pol asg
    by simp
  show ?thesis using 1 2 3 4 5 by (intro conjI)
qed

text \<open>
  C1 as stated fails: with the single policy of the scenario (role \<open>OrderOps\<close>,
  resource \<open>order\<close>, action \<open>refund\<close>, condition \<open>region = EU\<close>) and no context
  naming the region, the policy is not skipped: \<open>hasPermission\<close> grants and
  \<open>verifyAccess\<close> allows.
\<close>

theorem C1_counterexample:
  "fst (hasPermission ex_db_orderops 1000 new_RbacService OrderOps Res_order Act_refund None) = True \<and>
   fst (verifyAccess ex_db_orderops 1000 new_RbacService ''u1'' ''t1'' Res_order Act_refund) =
     \<lparr>allowed = True, reason = None\<rparr>"
  by code_simp

section \<open>Claims about tenant detection\<close>

text \<open>
  C2, as the code has it. For a request with a non-empty \<open>X-Tenant-ID\<close> header: when the
  lookup by that identifier finds a tenant, the middleware resolves to that tenant, with
  detection method \<open>header\<close>, whatever the host header is; when the lookup finds no
  tenant, detection goes on with the subdomain, the domain and the default tenant; when
  the lookup throws, the request goes on without a tenant.
\<close>

theorem C2_header_tenant_when_found:
  assumes "map_of (headers req) ''x-tenant-id'' = Some h" "h \<noteq> []"
  shows
    "(getTenantById svc h s = (Inr (Some t), s1) \<longrightarrow>
        tenantContextMiddleware svc req s =
          (req\<lparr>tenant := Some t, tenantId := Some (t_id t),
               tenantDetectionMethod := Some ''header''\<rparr>, s1)) \<and>
     (getTenantById svc h s = (Inr None, s1) \<longrightarrow>
        detect_tenant svc req s =
          (case detect_subdomain svc req None ''header'' s1 of
             (Inl e, s2) \<Rightarrow> (Inl e, s2)
           | (Inr (t2, m2), s2) \<Rightarrow>
               (case detect_domain svc req t2 m2 s2 of
                  (Inl e, s3) \<Rightarrow> (Inl e, s3)
                | (Inr (t3, m3), s3) \<Rightarrow> detect_default svc t3 m3 s3))) \<and>
     (getTenantById svc h s = (Inl e, s1) \<longrightarrow> tenantContextMiddleware svc req s = (req, s1))"
proof (intro conjI impI)
  assume found: "getTenantById svc h s = (Inr (Some t), s1)"
  have 1: "detect_header svc req s = (Inr (Some t, ''header''), s1)"
    using assms found by (simp add: detect_header_def)
  have "detect_tenant svc req s = (Inr (Some t, ''header''), s1)"
    by (simp add: detect_tenant_def 1 detect_subdomain_def detect_domain_def detect_default_def)
  then show "tenantContextMiddleware svc req s =
          (req\<lparr>tenant := Some t, tenantId := Some (t_id t),
               tenantDetectionMethod := Some ''header''\<rparr>, s1)"
    by (simp add: tenantContextMiddleware_def)
next
  assume nf: "getTenantById svc h s = (Inr None, s1)"
  have 1: "detect_header svc req s = (Inr (None, ''header''), s1)"
    using assms nf by (simp add: detect_header_def)
  show "detect_tenant svc req s =
          (case detect_subdomain svc req None ''header'' s1 of
             (Inl e, s2) \<Rightarrow> (Inl e, s2)
           | (Inr (t2, m2), s2) \<Rightarrow>
               (case detect_domain svc req t2 m2 s2 of
                  (Inl e, s3) \<Rightarrow> (Inl e, s3)
                | (Inr (t3, m3), s3) \<Rightarrow> detect_default svc t3 m3 s3))"
    by (simp add: detect_tenant_def 1)
next
  assume thrown: "getTenantById svc h s = (Inl e, s1)"
  have 1: "detect_header svc req s = (Inl e, s1)"
    using assms thrown by (simp add: detect_header_def)
  show "tenantContextMiddleware svc req s = (req, s1)"
    by (simp add: tenantContextMiddleware_def detect_tenant_def 1)
qed

theorem C2_witness:
  "tenantContextMiddleware ex_tenant_service
     (ex_request\<lparr>headers := [(''x-tenant-id'', ''hq''), (''host'', ''paris.impactnutrition.com'')]\<rparr>) () =
     (ex_request\<lparr>headers := [(''x-tenant-id'', ''hq''), (''host'', ''paris.impactnutrition.com'')],
         tenant := Some ex_hq, tenantId := Some ''hq'', tenantDetectionMethod := Some ''header''\<rparr>, ())"
  using C2_header_tenant_when_found [of
      "ex_request\<lparr>headers := [(''x-tenant-id'', ''hq''), (''host'', ''paris.impactnutrition.com'')]\<rparr>"
      "''hq''" ex_tenant_service "()" ex_hq "()"]
  by (simp add: ex_tenant_service_def ex_hq_def)

text \<open>
  C2 as stated fails: the identifier \<open>berlin\<close> has no tenant, and the request resolves
  to the tenant of its host's subdomain instead of to the lookup's result.
\<close>

theorem C2_counterexample:
  "fst (getTenantById ex_tenant_service ''berlin'' ()) = Inr None \<and>
   tenant (fst (tenantContextMiddleware ex_tenant_service
     (ex_request\<lparr>headers := [(''x-tenant-id'', ''berlin''), (''host'', ''paris.impactnutrition.com'')]\<rparr>) ()))
     = Some ex_paris \<and>
   tenantDetectionMethod (fst (tenantContextMiddleware ex_tenant_service
     (ex_request\<lparr>headers := [(''x-tenant-id'', ''berlin''), (''host'', ''paris.impactnutrition.com'')]\<rparr>) ()))
     = Some ''subdomain''"
  by code_simp

section \<open>Claims about the caches\<close>

lemma counted_apply: "fetchFn w = (r, w1) \<Longrightarrow> counted fetchFn (n, w) = (r, (Suc n, w1))"
  by (simp add: counted_def)

lemma getCachedTenant_miss:
  assumes "\<forall>e. c k = Some e \<longrightarrow> expiry e \<le> now" "fetchFn w = (Inr v, w1)"
  shows "getCachedTenant k fetchFn now c w =
           (Inr v, if js_truthy v then c(k \<mapsto> \<lparr>data = v, expiry = now + CACHE_TTL\<rparr>) else c, w1)"
  using assms by (cases "c k") (auto simp: getCachedTenant_def)

lemma getCachedTenant_miss_count:
  assumes "\<forall>e. c k = Some e \<longrightarrow> expiry e \<le> now"
  shows "fst (snd (snd (getCachedTenant k (counted fetchFn) now c (n, w)))) = Suc n"
proof -
  obtain r w1 where f: "fetchFn w = (r, w1)" by (cases "fetchFn w")
  have "counted fetchFn (n, w) = (r, (Suc n, w1))" using f by (rule counted_apply)
  then show ?thesis
    using assms by (cases "c k"; cases r) (auto simp: getCachedTenant_def)
qed

lemma getCachedQuery_miss:
  assumes "\<forall>e. c k = Some e \<longrightarrow> expiry e \<le> now" "queryFn w = (Inr v, w1)"
  shows "getCachedQuery k queryFn ttl now c w =
           (Inr v, c(k \<mapsto> \<lparr>data = v, expiry = now + ttl\<rparr>), w1)"
  using assms by (cases "c k") (auto simp: getCachedQuery_def)

lemma getCachedQuery_miss_count:
  assumes "\<forall>e. c k = Some e \<longrightarrow> expiry e \<le> now"
  shows "fst (snd (snd (getCachedQuery k (counted queryFn) ttl now c (n, w)))) = Suc n"
proof -
  obtain r w1 where f: "queryFn w = (r, w1)" by (cases "queryFn w")
  have "counted queryFn (n, w) = (r, (Suc n, w1))" using f by (rule counted_apply)
  then show ?thesis
    using assms by (cases "c k"; cases r) (auto simp: getCachedQuery_def)
qed

text \<open>
  C6. A key has no live entry when the first call is made at \<open>now1\<close>, and the fetch
  function yields a truthy value. Invocations are counted from 0. The first call invokes
  the fetch function once and stores the value. A second call before the entry expires
  returns the stored value and leaves the count at 1: the fetch function is not invoked.
  A second call at or after the expiry invokes it again: the count is 2. This holds for
  the tenant cache, whose TTL is \<open>CACHE_TTL\<close>, and for the query cache with any \<open>ttl\<close>.
\<close>

theorem C6_fetch_once_within_ttl:
  assumes miss: "\<forall>e. c0 k = Some e \<longrightarrow> expiry e \<le> now1"
    and fetch: "fetchFn w0 = (Inr v, w1)" "js_truthy v"
  shows
    "getCachedTenant k (counted fetchFn) now1 c0 (0, w0) =
       (Inr v, c0(k \<mapsto> \<lparr>data = v, expiry = now1 + CACHE_TTL\<rparr>), (1, w1)) \<and>
     (now2 < now1 + CACHE_TTL \<longrightarrow>
        getCachedTenant k (counted fetchFn) now2
          (c0(k \<mapsto> \<lparr>data = v, expiry = now1 + CACHE_TTL\<rparr>)) (1, w1) =
          (Inr v, c0(k \<mapsto> \<lparr>data = v, expiry = now1 + CACHE_TTL\<rparr>), (1, w1))) \<and>
     (now1 + CACHE_TTL \<le> now2 \<longrightarrow>
        fst (snd (snd (getCachedTenant k (counted fetchFn) now2
          (c0(k \<mapsto> \<lparr>data = v, expiry = now1 + CACHE_TTL\<rparr>)) (1, w1)))) = 2) \<and>
     getCachedQuery k (counted fetchFn) ttl now1 c0 (0, w0) =
       (Inr v, c0(k \<mapsto> \<lparr>data = v, expiry = now1 + ttl\<rparr>), (1, w1)) \<and>
     (now2 < now1 + ttl \<longrightarrow>
        getCachedQuery k (counted fetchFn) ttl now2
          (c0(k \<mapsto> \<lparr>data = v, expiry = now1 + ttl\<rparr>)) (1, w1) =
          (Inr v, c0(k \<mapsto> \<lparr>data = v, expiry = now1 + ttl\<rparr>), (1, w1))) \<and>
     (now1 + ttl \<le> now2 \<longrightarrow>
        fst (snd (snd (getCachedQuery k (counted fetchFn) ttl now2
          (c0(k \<mapsto> \<lparr>data = v, expiry = now1 + ttl\<rparr>)) (1, w1)))) = 2)"
proof -
  have cf: "counted fetchFn (0, w0) = (Inr v, (1, w1))"
    using fetch(1) counted_apply [of fetchFn w0 "Inr v" w1 0] by simp
  have t1: "getCachedTenant k (counted fetchFn) now1 c0 (0, w0) =
       (Inr v, c0(k \<mapsto> \<lparr>data = v, expiry = now1 + CACHE_TTL\<rparr>), (1, w1))"
    using getCachedTenant_miss [of c0 k now1 "counted fetchFn" "(0, w0)" v "(1, w1)"] miss cf fetch(2) by simp
  have t2: "now2 < now1 + CACHE_TTL \<longrightarrow>
        getCachedTenant k (counted fetchFn) now2
          (c0(k \<mapsto> \<lparr>data = v, expiry = now1 + CACHE_TTL\<rparr>)) (1, w1) =
          (Inr v, c0(k \<mapsto> \<lparr>data = v, expiry = now1 + CACHE_TTL\<rparr>), (1, w1))"
    by (simp add: getCachedTenant_def)
  have t3: "now1 + CACHE_TTL \<le> now2 \<longrightarrow>
        fst (snd (snd (getCachedTenant k (counted fetchFn) now2
          (c0(k \<mapsto> \<lparr>data = v, expiry = now1 + CACHE_TTL\<rparr>)) (1, w1)))) = 2"
    using getCachedTenant_miss_count [of "c0(k \<mapsto> \<lparr>data = v, expiry = now1 + CACHE_TTL\<rparr>)" k now2 fetchFn 1 w1]
    by simp
  have q1: "getCachedQuery k (counted fetchFn) ttl now1 c0 (0, w0) =
       (Inr v, c0(k \<mapsto> \<lparr>data = v, expiry = now1 + ttl\<rparr>), (1, w1))"
    using getCachedQuery_miss [of c0 k now1 "counted fetchFn" "(0, w0)" v "(1, w1)" ttl] miss cf by simp
  have q2: "now2 < now1 + ttl \<longrightarrow>
        getCachedQuery k (counted fetchFn) ttl now2
          (c0(k \<mapsto> \<lparr>data = v, expiry = now1 + ttl\<rparr>)) (1, w1) =
          (Inr v, c0(k \<mapsto> \<lparr>data = v, expiry = now1 + ttl\<rparr>), (1, w1))"
    by (simp add: getCachedQuery_def)
  have q3: "now1 + ttl \<le> now2 \<longrightarrow>
        fst (snd (snd (getCachedQuery k (counted fetchFn) ttl now2
          (c0(k \<mapsto> \<lparr>data = v, expiry = now1 + ttl\<rparr>)) (1, w1)))) = 2"
    using getCachedQuery_miss_count [of "c0(k \<mapsto> \<lparr>data = v, expiry = now1 + ttl\<rparr>)" k now2 fetchFn ttl 1 w1]
    by simp
  show ?thesis using t1 t2 t3 q1 q2 q3 by blast
qed


theorem C6_witness:
  "getCachedTenant ''paris'' (counted ex_fetch_paris) 0 ex_empty_cache (0, ()) =
     (Inr (Some (JObj [(''id'', JStr ''paris'')])),
      ex_empty_cache(''paris'' \<mapsto> \<lparr>data = Some (JObj [(''id'', JStr ''paris'')]), expiry = 300000\<rparr>),
      (1, ())) \<and>
   getCachedTenant ''paris'' (counted ex_fetch_paris) 299999
     (ex_empty_cache(''paris'' \<mapsto> \<lparr>data = Some (JObj [(''id'', JStr ''paris'')]), expiry = 300000\<rparr>))
     (1, ()) =
     (Inr (Some (JObj [(''id'', JStr ''paris'')])),
      ex_empty_cache(''paris'' \<mapsto> \<lparr>data = Some (JObj [(''id'', JStr ''paris'')]), expiry = 300000\<rparr>),
      (1, ())) \<and>
   fst (snd (snd (getCachedTenant ''paris'' (counted ex_fetch_paris) 300000
     (ex_empty_cache(''paris'' \<mapsto> \<lparr>data = Some (JObj [(''id'', JStr ''paris'')]), expiry = 300000\<rparr>))
     (1, ())))) = 2 \<and>
   fst (snd (snd (getCachedQuery ''paris'' (counted ex_fetch_paris) 60000 300000
     (ex_empty_cache(''paris'' \<mapsto> \<lparr>data = Some (JObj [(''id'', JStr ''paris'')]), expiry = 60000\<rparr>))
     (1, ())))) = 2"
  using
    C6_fetch_once_within_ttl [of ex_empty_cache "''paris''" 0 ex_fetch_paris "()"
      "Some (JObj [(''id'', JStr ''paris'')])" "()" 299999 60000]
    C6_fetch_once_within_ttl [of ex_empty_cache "''paris''" 0 ex_fetch_paris "()"
      "Some (JObj [(''id'', JStr ''paris'')])" "()" 300000 60000]
  by (simp add: ex_empty_cache_def ex_fetch_paris_def CACHE_TTL_def)

text \<open>
  C5, as the code has it. A key has no live entry and the fetch function yields a falsy
  value. The tenant cache returns the value and stores nothing, so the next access under
  the key invokes the fetch function again (the count becomes 2). The query cache stores
  the falsy value like any other, and until the entry expires the next access returns it
  without invoking the query function.
\<close>

theorem C5_falsy_result_not_stored_in_tenant_cache:
  assumes miss: "\<forall>e. c0 k = Some e \<longrightarrow> expiry e \<le> now1"
    and fetch: "fetchFn w0 = (Inr v, w1)" "\<not> js_truthy v"
    and later: "now1 \<le> now2"
  shows
    "getCachedTenant k (counted fetchFn) now1 c0 (0, w0) = (Inr v, c0, (1, w1)) \<and>
     fst (snd (snd (getCachedTenant k (counted fetchFn) now2 c0 (1, w1)))) = 2 \<and>
     getCachedQuery k (counted fetchFn) ttl now1 c0 (0, w0) =
       (Inr v, c0(k \<mapsto> \<lparr>data = v, expiry = now1 + ttl\<rparr>), (1, w1)) \<and>
     (now2 < now1 + ttl \<longrightarrow>
        getCachedQuery k (counted fetchFn) ttl now2
          (c0(k \<mapsto> \<lparr>data = v, expiry = now1 + ttl\<rparr>)) (1, w1) =
          (Inr v, c0(k \<mapsto> \<lparr>data = v, expiry = now1 + ttl\<rparr>), (1, w1)))"
proof -
  have cf: "counted fetchFn (0, w0) = (Inr v, (1, w1))"
    using fetch(1) counted_apply [of fetchFn w0 "Inr v" w1 0] by simp
  have t1: "getCachedTenant k (counted fetchFn) now1 c0 (0, w0) = (Inr v, c0, (1, w1))"
    using getCachedTenant_miss [of c0 k now1 "counted fetchFn" "(0, w0)" v "(1, w1)"] miss cf fetch(2)
    by simp
  have miss2: "\<forall>e. c0 k = Some e \<longrightarrow> expiry e \<le> now2"
    using miss later by fastforce
  have t2: "fst (snd (snd (getCachedTenant k (counted fetchFn) now2 c0 (1, w1)))) = 2"
    using getCachedTenant_miss_count [of c0 k now2 fetchFn 1 w1] miss2 by simp
  have q1: "getCachedQuery k (counted fetchFn) ttl now1 c0 (0, w0) =
       (Inr v, c0(k \<mapsto> \<lparr>data = v, expiry = now1 + ttl\<rparr>), (1, w1))"
    using getCachedQuery_miss [of c0 k now1 "counted fetchFn" "(0, w0)" v "(1, w1)" ttl] miss cf
    by simp
  have q2: "now2 < now1 + ttl \<longrightarrow>
        getCachedQuery k (counted fetchFn) ttl now2
          (c0(k \<mapsto> \<lparr>data = v, expiry = now1 + ttl\<rparr>)) (1, w1) =
          (Inr v, c0(k \<mapsto> \<lparr>data = v, expiry = now1 + ttl\<rparr>), (1, w1))"
    by (simp add: getCachedQuery_def)
  show ?thesis using t1 t2 q1 q2 by blast
qed

theorem C5_witness:
  "getCachedTenant ''ghost'' (counted ex_fetch_null) 0 ex_empty_cache (0, ()) =
     (Inr (Some JNull), ex_empty_cache, (1, ())) \<and>
   fst (snd (snd (getCachedTenant ''ghost'' (counted ex_fetch_null) 1000 ex_empty_cache (1, ())))) = 2 \<and>
   getCachedQuery ''ghost'' (counted ex_fetch_null) 60000 1000
     (ex_empty_cache(''ghost'' \<mapsto> \<lparr>data = Some JNull, expiry = 60000\<rparr>)) (1, ()) =
     (Inr (Some JNull), ex_empty_cache(''ghost'' \<mapsto> \<lparr>data = Some JNull, expiry = 60000\<rparr>), (1, ()))"
  using C5_falsy_result_not_stored_in_tenant_cache [of ex_empty_cache "''ghost''" 0 ex_fetch_null "()"
      "Some JNull" "()" 1000 60000]
  by (simp add: ex_empty_cache_def ex_fetch_null_def)

text \<open>
  C5 as stated fails for the query cache: a query function that yields \<open>null\<close> has its
  result stored, and a second access within the TTL does not invoke it again (the count
  stays at 1).
\<close>

theorem C5_counterexample:
  "fst (snd (getCachedQuery ''ghost'' (counted ex_fetch_null) 60000 0 ex_empty_cache (0, ()))) ''ghost'' =
     Some \<lparr>data = Some JNull, expiry = 60000\<rparr> \<and>
   snd (snd (getCachedQuery ''ghost'' (counted ex_fetch_null) 60000 1000
     (fst (snd (getCachedQuery ''ghost'' (counted ex_fetch_null) 60000 0 ex_empty_cache (0, ()))))
     (snd (snd (getCachedQuery ''ghost'' (counted ex_fetch_null) 60000 0 ex_empty_cache (0, ())))))) =
     (1, ())"
  by (simp add: getCachedQuery_def counted_def ex_fetch_null_def ex_empty_cache_def)

section \<open>Claims about the audit trail\<close>

lemma log_returns: "fst (log db_error rid entry w) = Inr ()"
  by (simp add: log_def log_try_def insert_audit_log_def split: option.splits error.splits)

lemma log_refused:
  assumes "db_error (insert_params rid entry) = Some (Error msg)"
  shows "log db_error rid entry w =
           (Inr (), w\<lparr>console := console w @ [''[Audit] Failed to log action: '' @ msg]\<rparr>)"
  using assms by (simp add: log_def log_try_def insert_audit_log_def)

lemma log_audit_log:
  "audit_log (snd (log db_error rid entry w)) =
     (case db_error (insert_params rid entry) of
        None \<Rightarrow> audit_log w @ [insert_params rid entry]
      | Some e \<Rightarrow> audit_log w)"
  by (simp add: log_def log_try_def insert_audit_log_def split: option.splits error.splits)

text \<open>
  C4. \<open>log\<close> never throws to its caller: whatever the entry and whatever the datastore
  does with the write, \<open>log\<close> returns normally, and so does \<open>logFromRequest\<close>, which
  calls it. When the datastore refuses the write with an error, the error is caught
  inside \<open>log\<close>: nothing is written, and the only effect is the line on the console.
\<close>

theorem C4_log_never_throws:
  "fst (log db_error rid entry w) = Inr () \<and>
   fst (logFromRequest db_error rid req act rsc rsid meta w) = Inr () \<and>
   (db_error (insert_params rid entry) = Some (Error msg) \<longrightarrow>
      log db_error rid entry w =
        (Inr (), w\<lparr>console := console w @ [''[Audit] Failed to log action: '' @ msg]\<rparr>))"
  by (simp add: log_returns logFromRequest_def log_refused)

theorem C4_witness:
  "log ex_datastore_down ''audit_1'' ex_entry ex_world =
     (Inr (), ex_world\<lparr>console := [''[Audit] Failed to log action: connection refused'']\<rparr>)"
  using C4_log_never_throws [of ex_datastore_down "''audit_1''" ex_entry ex_world ex_request
      Aud_update Aud_product None None "''connection refused''"]
  by (simp add: ex_datastore_down_def ex_world_def)

text \<open>
  C9. When the response status is below 200, or 300 or above, \<open>logAudit\<close> returns at once:
  neither the audit table nor the console changes. So a response sent through the
  wrappers that \<open>auditMiddleware\<close> installs on a mutating request writes no audit entry
  unless its status lies in [200, 300).
\<close>

theorem C9_no_audit_outside_2xx:
  assumes "statusCode res < 200 \<or> 300 \<le> statusCode res"
  shows "logAudit db_error rid req res act rsc rsid rb w = w \<and>
         respond db_error rid req res rb w = w"
  using assms by (auto simp: logAudit_def respond_def split: option.splits)

theorem C9_witness:
  "auditMiddleware ex_create_user = Some (Aud_create, Aud_user, Some ''users'') \<and>
   respond ex_datastore_up ''audit_1'' ex_create_user \<lparr>statusCode = 422\<rparr> None ex_world = ex_world \<and>
   length (audit_log (respond ex_datastore_up ''audit_1'' ex_create_user \<lparr>statusCode = 201\<rparr> None ex_world)) = 1"
proof -
  have a: "auditMiddleware ex_create_user = Some (Aud_create, Aud_user, Some ''users'')"
    by code_simp
  have b: "length (audit_log (respond ex_datastore_up ''audit_1'' ex_create_user \<lparr>statusCode = 201\<rparr> None ex_world)) = 1"
    by code_simp
  show ?thesis
    using a b C9_no_audit_outside_2xx [of "\<lparr>statusCode = 422\<rparr>" ex_datastore_up "''audit_1''" ex_create_user
        Aud_create Aud_user "Some ''users''" None ex_world]
    by simp
qed


lemma redact_field_keys: "map fst (redact_field f s) = map fst s"
  by (induction s) (auto simp: redact_field_def)

lemma redact_field_values:
  assumes "(k, v) \<in> set (redact_field f s)"
  shows "(k = f \<and> v = REDACTED) \<or> (k \<noteq> f \<and> (k, v) \<in> set s)"
proof (cases "f \<in> fst ` set s")
  case True
  then have "redact_field f s = map (\<lambda>(k, v). if k = f then (k, REDACTED) else (k, v)) s"
    by (simp add: redact_field_def)
  with assms obtain k0 v0 where "(k0, v0) \<in> set s"
    "(k, v) = (if k0 = f then (k0, REDACTED) else (k0, v0))"
    by auto
  then show ?thesis by (cases "k0 = f") auto
next
  case False
  then have "redact_field f s = s" by (simp add: redact_field_def)
  with assms False show ?thesis by force
qed

lemma redact_fields_keys:
  "map fst (foldl (\<lambda>sanitized field. redact_field field sanitized) s flds) = map fst s"
  by (induction flds arbitrary: s) (simp_all add: redact_field_keys)

lemma redact_fields_values:
  assumes "\<forall>(k, v) \<in> set s. k \<in> F \<longrightarrow> v = REDACTED"
  shows "\<forall>(k, v) \<in> set (foldl (\<lambda>sanitized field. redact_field field sanitized) s flds).
           k \<in> F \<union> set flds \<longrightarrow> v = REDACTED"
  using assms
proof (induction flds arbitrary: s F)
  case Nil
  then show ?case by simp
next
  case (Cons f flds)
  have "\<forall>(k, v) \<in> set (redact_field f s). k \<in> insert f F \<longrightarrow> v = REDACTED"
    using Cons.prems redact_field_values [of _ _ f s] by fastforce
  from Cons.IH [OF this] show ?case by simp
qed

lemma sanitizeBody_object:
  "sanitizeBody (Some (JObj fs)) =
     foldl (\<lambda>sanitized field. redact_field field sanitized) fs sensitiveFields"
  by (simp add: sanitizeBody_def)

lemma sanitizeBody_password:
  assumes "''password'' \<in> fst ` set fs"
  shows "map_of (sanitizeBody (Some (JObj fs))) ''password'' = Some REDACTED"
    and "\<forall>v. (''password'', v) \<in> set (sanitizeBody (Some (JObj fs))) \<longrightarrow> v = REDACTED"
    and "0 < length (sanitizeBody (Some (JObj fs)))"
proof -
  let ?sb = "sanitizeBody (Some (JObj fs))"
  have keys: "map fst ?sb = map fst fs"
    by (simp add: sanitizeBody_object redact_fields_keys)
  have vals: "\<forall>(k, v) \<in> set ?sb. k \<in> {} \<union> set sensitiveFields \<longrightarrow> v = REDACTED"
    unfolding sanitizeBody_object by (rule redact_fields_values) simp
  have pw: "''password'' \<in> set sensitiveFields" by (simp add: sensitiveFields_def)
  show 2: "\<forall>v. (''password'', v) \<in> set ?sb \<longrightarrow> v = REDACTED"
    using vals pw by auto
  have "''password'' \<in> fst ` set ?sb"
    using assms keys by (metis set_map)
  then obtain v where "map_of ?sb ''password'' = Some v"
    by (metis domD dom_map_of_conv_image_fst)
  moreover from this have "(''password'', v) \<in> set ?sb" by (rule map_of_SomeD)
  ultimately show "map_of ?sb ''password'' = Some REDACTED" using 2 by simp
  show "0 < length ?sb" using assms keys by (metis empty_iff image_empty length_greater_0_conv list.set(1) set_map)
qed

lemma audit_metadata_changes:
  assumes "act = Aud_create \<or> act = Aud_update" "0 < length (sanitizeBody (body req))"
  shows "map_of (audit_metadata req res act) ''changes'' = Some (JObj (sanitizeBody (body req)))"
  using assms by (auto simp: audit_metadata_def Let_def split: option.splits)

lemma logAudit_2xx:
  assumes "200 \<le> statusCode res" "statusCode res < 300"
  shows "audit_log (logAudit db_error rid req res act rsc rsid rb w) =
     (case db_error (insert_params rid (request_entry req act rsc (finalResourceId rsid rb)
                       (Some (JObj (audit_metadata req res act))))) of
        None \<Rightarrow> audit_log w @ [insert_params rid (request_entry req act rsc (finalResourceId rsid rb)
                       (Some (JObj (audit_metadata req res act))))]
      | Some e \<Rightarrow> audit_log w)"
proof -
  let ?entry = "request_entry req act rsc (finalResourceId rsid rb) (Some (JObj (audit_metadata req res act)))"
  obtain r w1 where l: "log db_error rid ?entry w = (r, w1)" by (cases "log db_error rid ?entry w")
  have r: "r = Inr ()" using log_returns [of db_error rid ?entry w] l by simp
  have "audit_log (logAudit db_error rid req res act rsc rsid rb w) = audit_log w1"
    using assms l r by (simp add: logAudit_def logAudit_try_def logFromRequest_def)
  moreover have "audit_log w1 = audit_log (snd (log db_error rid ?entry w))" using l by simp
  ultimately show ?thesis by (simp add: log_audit_log)
qed

lemma redact_field_map:
  "redact_field f s = map (\<lambda>(k, v). if k = f then (k, REDACTED) else (k, v)) s"
proof (cases "f \<in> fst ` set s")
  case True
  then show ?thesis by (simp add: redact_field_def)
next
  case False
  then have "map (\<lambda>(k, v). if k = f then (k, REDACTED) else (k, v)) s = map (\<lambda>x. x) s"
    by (intro map_cong refl) force
  then show ?thesis using False by (simp add: redact_field_def)
qed

lemma redact_fields_map:
  "foldl (\<lambda>sanitized field. redact_field field sanitized) s flds =
     map (\<lambda>(k, v). if k \<in> set flds then (k, REDACTED) else (k, v)) s"
proof (induction flds arbitrary: s)
  case Nil
  then show ?case by simp
next
  case (Cons f flds)
  have "foldl (\<lambda>sanitized field. redact_field field sanitized) s (f # flds) =
          foldl (\<lambda>sanitized field. redact_field field sanitized) (redact_field f s) flds"
    by simp
  also have "\<dots> = map (\<lambda>(k, v). if k \<in> set flds then (k, REDACTED) else (k, v)) (redact_field f s)"
    by (rule Cons.IH)
  also have "\<dots> = map (\<lambda>(k, v). if k \<in> set flds then (k, REDACTED) else (k, v))
                     (map (\<lambda>(k, v). if k = f then (k, REDACTED) else (k, v)) s)"
    by (simp only: redact_field_map)
  also have "\<dots> = map (\<lambda>(k, v). if k \<in> set (f # flds) then (k, REDACTED) else (k, v)) s"
    by (induction s) auto
  finally show ?case .
qed

lemma sanitizeBody_object_map:
  "sanitizeBody (Some (JObj fs)) =
     map (\<lambda>(k, v). if k \<in> set sensitiveFields then (k, REDACTED) else (k, v)) fs"
  by (simp add: sanitizeBody_object redact_fields_map)

lemma logAuditAction_audit_log:
  "audit_log (snd (logAuditAction db_error rid req act rsc rsid meta w)) =
     (case db_error (insert_params rid (request_entry req act rsc rsid meta)) of
        None \<Rightarrow> audit_log w @ [insert_params rid (request_entry req act rsc rsid meta)]
      | Some e \<Rightarrow> audit_log w)"
  by (simp add: logAuditAction_def logFromRequest_def log_audit_log)

lemma insert_params_metadata:
  "a_metadata (insert_params rid entry) =
     (if js_truthy (e_metadata entry) then e_metadata entry else None)"
  by (simp add: insert_params_def)

text \<open>
  C7, as the code has it. The audit middleware records a create or update whose response
  status is in [200, 300) and whose request body is an object with a top-level field
  named \<open>password\<close>. If the datastore accepts the write, exactly one row is added;
  otherwise none. The row's metadata holds under \<open>changes\<close> the request body with the
  value of every field on the deny-list replaced by \<open>[REDACTED]\<close> and every other field
  as it was; there the field \<open>password\<close> has the value \<open>[REDACTED]\<close> and no other.
  \<open>logAuditAction\<close> and \<open>log\<close> do not redact: the row they write holds the metadata
  they were given when it is truthy, and \<open>NULL\<close> when it is falsy.
\<close>

theorem C7_redaction_applied_by_middleware_only:
  "(200 \<le> statusCode res \<and> statusCode res < 300 \<and> (act = Aud_create \<or> act = Aud_update) \<and>
    body req = Some (JObj fs) \<and> ''password'' \<in> fst ` set fs \<longrightarrow>
      (\<exists>row meta changes.
         (audit_log (logAudit db_error rid req res act rsc rsid rb w) = audit_log w @ [row] \<or>
          audit_log (logAudit db_error rid req res act rsc rsid rb w) = audit_log w) \<and>
         (db_error row = None \<longrightarrow>
            audit_log (logAudit db_error rid req res act rsc rsid rb w) = audit_log w @ [row]) \<and>
         a_metadata row = Some (JObj meta) \<and>
         map_of meta ''changes'' = Some (JObj changes) \<and>
         changes = map (\<lambda>(k, v). if k \<in> set sensitiveFields then (k, REDACTED) else (k, v)) fs \<and>
         map_of changes ''password'' = Some REDACTED \<and>
         (\<forall>v. (''password'', v) \<in> set changes \<longrightarrow> v = REDACTED))) \<and>
   audit_log (snd (logAuditAction db_error rid req act rsc mrsid mmeta w)) =
     (case db_error (insert_params rid (request_entry req act rsc mrsid mmeta)) of
        None \<Rightarrow> audit_log w @ [insert_params rid (request_entry req act rsc mrsid mmeta)]
      | Some e \<Rightarrow> audit_log w) \<and>
   a_metadata (insert_params rid (request_entry req act rsc mrsid mmeta)) =
     (if js_truthy mmeta then mmeta else None) \<and>
   audit_log (snd (log db_error rid entry w)) =
     (case db_error (insert_params rid entry) of
        None \<Rightarrow> audit_log w @ [insert_params rid entry]
      | Some e \<Rightarrow> audit_log w) \<and>
   a_metadata (insert_params rid entry) =
     (if js_truthy (e_metadata entry) then e_metadata entry else None)"
proof (intro conjI impI)
  assume h: "200 \<le> statusCode res \<and> statusCode res < 300 \<and> (act = Aud_create \<or> act = Aud_update) \<and>
    body req = Some (JObj fs) \<and> ''password'' \<in> fst ` set fs"
  let ?meta = "audit_metadata req res act"
  let ?entry = "request_entry req act rsc (finalResourceId rsid rb) (Some (JObj ?meta))"
  let ?row = "insert_params rid ?entry"
  let ?sb = "sanitizeBody (body req)"
  have sb: "map_of ?sb ''password'' = Some REDACTED"
    "\<forall>v. (''password'', v) \<in> set ?sb \<longrightarrow> v = REDACTED" "0 < length ?sb"
    using sanitizeBody_password [of fs] h by simp_all
  have sbm: "?sb = map (\<lambda>(k, v). if k \<in> set sensitiveFields then (k, REDACTED) else (k, v)) fs"
    using h by (simp add: sanitizeBody_object_map)
  have m: "map_of ?meta ''changes'' = Some (JObj ?sb)"
    using h sb(3) by (intro audit_metadata_changes) simp_all
  have md: "a_metadata ?row = Some (JObj ?meta)"
    by (simp add: insert_params_def request_entry_def)
  have w: "audit_log (logAudit db_error rid req res act rsc rsid rb w) =
             (case db_error ?row of None \<Rightarrow> audit_log w @ [?row] | Some e \<Rightarrow> audit_log w)"
    using h by (intro logAudit_2xx) simp_all
  have d: "(audit_log (logAudit db_error rid req res act rsc rsid rb w) = audit_log w @ [?row] \<or>
         audit_log (logAudit db_error rid req res act rsc rsid rb w) = audit_log w) \<and>
        (db_error ?row = None \<longrightarrow>
           audit_log (logAudit db_error rid req res act rsc rsid rb w) = audit_log w @ [?row])"
    unfolding w by (cases "db_error ?row") simp_all
  have "(audit_log (logAudit db_error rid req res act rsc rsid rb w) = audit_log w @ [?row] \<or>
         audit_log (logAudit db_error rid req res act rsc rsid rb w) = audit_log w) \<and>
        (db_error ?row = None \<longrightarrow>
           audit_log (logAudit db_error rid req res act rsc rsid rb w) = audit_log w @ [?row]) \<and>
        a_metadata ?row = Some (JObj ?meta) \<and>
        map_of ?meta ''changes'' = Some (JObj ?sb) \<and>
        ?sb = map (\<lambda>(k, v). if k \<in> set sensitiveFields then (k, REDACTED) else (k, v)) fs \<and>
        map_of ?sb ''password'' = Some REDACTED \<and>
        (\<forall>v. (''password'', v) \<in> set ?sb \<longrightarrow> v = REDACTED)"
    using d md m sbm sb(1,2) by (intro conjI) (elim conjE, assumption)+
  then show "\<exists>row meta changes.
         (audit_log (logAudit db_error rid req res act rsc rsid rb w) = audit_log w @ [row] \<or>
          audit_log (logAudit db_error rid req res act rsc rsid rb w) = audit_log w) \<and>
         (db_error row = None \<longrightarrow>
            audit_log (logAudit db_error rid req res act rsc rsid rb w) = audit_log w @ [row]) \<and>
         a_metadata row = Some (JObj meta) \<and>
         map_of meta ''changes'' = Some (JObj changes) \<and>
         changes = map (\<lambda>(k, v). if k \<in> set sensitiveFields then (k, REDACTED) else (k, v)) fs \<and>
         map_of changes ''password'' = Some REDACTED \<and>
         (\<forall>v. (''password'', v) \<in> set changes \<longrightarrow> v = REDACTED)"
    by - ((rule exI)+, assumption)
next
  show "audit_log (snd (logAuditAction db_error rid req act rsc mrsid mmeta w)) =
     (case db_error (insert_params rid (request_entry req act rsc mrsid mmeta)) of
        None \<Rightarrow> audit_log w @ [insert_params rid (request_entry req act rsc mrsid mmeta)]
      | Some e \<Rightarrow> audit_log w)"
    by (rule logAuditAction_audit_log)
  show "a_metadata (insert_params rid (request_entry req act rsc mrsid mmeta)) =
     (if js_truthy mmeta then mmeta else None)"
    by (simp add: insert_params_metadata request_entry_def)
  show "audit_log (snd (log db_error rid entry w)) =
     (case db_error (insert_params rid entry) of
        None \<Rightarrow> audit_log w @ [insert_params rid entry]
      | Some e \<Rightarrow> audit_log w)"
    by (rule log_audit_log)
  show "a_metadata (insert_params rid entry) =
     (if js_truthy (e_metadata entry) then e_metadata entry else None)"
    by (rule insert_params_metadata)
qed


theorem C7_witness:
  "(\<exists>row meta changes.
      (audit_log (logAudit ex_datastore_up ''audit_1'' ex_create_user \<lparr>statusCode = 201\<rparr>
                    Aud_create Aud_user (Some ''users'') None ex_world) = audit_log ex_world @ [row] \<or>
       audit_log (logAudit ex_datastore_up ''audit_1'' ex_create_user \<lparr>statusCode = 201\<rparr>
                    Aud_create Aud_user (Some ''users'') None ex_world) = audit_log ex_world) \<and>
      (ex_datastore_up row = None \<longrightarrow>
         audit_log (logAudit ex_datastore_up ''audit_1'' ex_create_user \<lparr>statusCode = 201\<rparr>
                      Aud_create Aud_user (Some ''users'') None ex_world) = audit_log ex_world @ [row]) \<and>
      a_metadata row = Some (JObj meta) \<and>
      map_of meta ''changes'' = Some (JObj changes) \<and>
      changes = [(''email'', JStr ''a@example.com''), (''password'', REDACTED)] \<and>
      map_of changes ''password'' = Some REDACTED \<and>
      (\<forall>v. (''password'', v) \<in> set changes \<longrightarrow> v = REDACTED)) \<and>
   map a_metadata (audit_log (logAudit ex_datastore_up ''audit_1'' ex_create_user \<lparr>statusCode = 201\<rparr>
                    Aud_create Aud_user (Some ''users'') None ex_world)) =
     [Some (JObj [(''method'', JStr ''POST''), (''path'', JStr ''/admin/users''),
                  (''statusCode'', JNum 201),
                  (''changes'', JObj [(''email'', JStr ''a@example.com''),
                                      (''password'', JStr ''[REDACTED]'')])])] \<and>
   a_metadata (insert_params ''audit_1'' (request_entry ex_request Aud_update Aud_user
      (Some (JStr ''user_1'')) (Some (JObj [(''password'', JStr ''hunter2'')])))) =
     Some (JObj [(''password'', JStr ''hunter2'')]) \<and>
   a_metadata (insert_params ''audit_1'' (request_entry ex_request Aud_update Aud_user
      (Some (JStr ''user_1'')) (Some (JStr [])))) = None"
proof (intro conjI)
  have "\<exists>row meta changes.
      (audit_log (logAudit ex_datastore_up ''audit_1'' ex_create_user \<lparr>statusCode = 201\<rparr>
                    Aud_create Aud_user (Some ''users'') None ex_world) = audit_log ex_world @ [row] \<or>
       audit_log (logAudit ex_datastore_up ''audit_1'' ex_create_user \<lparr>statusCode = 201\<rparr>
                    Aud_create Aud_user (Some ''users'') None ex_world) = audit_log ex_world) \<and>
      (ex_datastore_up row = None \<longrightarrow>
         audit_log (logAudit ex_datastore_up ''audit_1'' ex_create_user \<lparr>statusCode = 201\<rparr>
                      Aud_create Aud_user (Some ''users'') None ex_world) = audit_log ex_world @ [row]) \<and>
      a_metadata row = Some (JObj meta) \<and>
      map_of meta ''changes'' = Some (JObj changes) \<and>
      changes = map (\<lambda>(k, v). if k \<in> set sensitiveFields then (k, REDACTED) else (k, v))
                  [(''email'', JStr ''a@example.com''), (''password'', JStr ''hunter2'')] \<and>
      map_of changes ''password'' = Some REDACTED \<and>
      (\<forall>v. (''password'', v) \<in> set changes \<longrightarrow> v = REDACTED)"
    using C7_redaction_applied_by_middleware_only
      [where res = "\<lparr>statusCode = 201\<rparr>" and act = Aud_create and req = ex_create_user
         and fs = "[(''email'', JStr ''a@example.com''), (''password'', JStr ''hunter2'')]"
         and db_error = ex_datastore_up and rid = "''audit_1''" and rsc = Aud_user
         and rsid = "Some ''users''" and rb = None and w = ex_world]
    by (simp add: ex_create_user_def)
  moreover have "map (\<lambda>(k, v). if k \<in> set sensitiveFields then (k, REDACTED) else (k, v))
                  [(''email'', JStr ''a@example.com''), (''password'', JStr ''hunter2'')] =
                 [(''email'', JStr ''a@example.com''), (''password'', REDACTED)]"
    by (simp add: sensitiveFields_def)
  ultimately show "\<exists>row meta changes.
      (audit_log (logAudit ex_datastore_up ''audit_1'' ex_create_user \<lparr>statusCode = 201\<rparr>
                    Aud_create Aud_user (Some ''users'') None ex_world) = audit_log ex_world @ [row] \<or>
       audit_log (logAudit ex_datastore_up ''audit_1'' ex_create_user \<lparr>statusCode = 201\<rparr>
                    Aud_create Aud_user (Some ''users'') None ex_world) = audit_log ex_world) \<and>
      (ex_datastore_up row = None \<longrightarrow>
         audit_log (logAudit ex_datastore_up ''audit_1'' ex_create_user \<lparr>statusCode = 201\<rparr>
                      Aud_create Aud_user (Some ''users'') None ex_world) = audit_log ex_world @ [row]) \<and>
      a_metadata row = Some (JObj meta) \<and>
      map_of meta ''changes'' = Some (JObj changes) \<and>
      changes = [(''email'', JStr ''a@example.com''), (''password'', REDACTED)] \<and>
      map_of changes ''password'' = Some REDACTED \<and>
      (\<forall>v. (''password'', v) \<in> set changes \<longrightarrow> v = REDACTED)"
    by simp
next
  show "map a_metadata (audit_log (logAudit ex_datastore_up ''audit_1'' ex_create_user \<lparr>statusCode = 201\<rparr>
                    Aud_create Aud_user (Some ''users'') None ex_world)) =
     [Some (JObj [(''method'', JStr ''POST''), (''path'', JStr ''/admin/users''),
                  (''statusCode'', JNum 201),
                  (''changes'', JObj [(''email'', JStr ''a@example.com''),
                                      (''password'', JStr ''[REDACTED]'')])])]"
    by code_simp
next
  show "a_metadata (insert_params ''audit_1'' (request_entry ex_request Aud_update Aud_user
      (Some (JStr ''user_1'')) (Some (JObj [(''password'', JStr ''hunter2'')])))) =
     Some (JObj [(''password'', JStr ''hunter2'')])"
    using C7_redaction_applied_by_middleware_only
      [where rid = "''audit_1''" and req = ex_request and act = Aud_update and rsc = Aud_user
         and mrsid = "Some (JStr ''user_1'')" and mmeta = "Some (JObj [(''password'', JStr ''hunter2'')])",
       THEN conjunct2, THEN conjunct2, THEN conjunct1]
    by simp
next
  show "a_metadata (insert_params ''audit_1'' (request_entry ex_request Aud_update Aud_user
      (Some (JStr ''user_1'')) (Some (JStr [])))) = None"
    using C7_redaction_applied_by_middleware_only
      [where rid = "''audit_1''" and req = ex_request and act = Aud_update and rsc = Aud_user
         and mrsid = "Some (JStr ''user_1'')" and mmeta = "Some (JStr [])",
       THEN conjunct2, THEN conjunct2, THEN conjunct1]
    by simp
qed

text \<open>
  C7 as stated fails for entries recorded through \<open>logAuditAction\<close>: metadata handed to
  the helper is persisted as it is, with the original value of its \<open>password\<close> field.
\<close>

theorem C7_counterexample:
  "map a_metadata (audit_log (snd (logAuditAction ex_datastore_up ''audit_1'' ex_request Aud_update
      Aud_user (Some (JStr ''user_1'')) (Some (JObj [(''password'', JStr ''hunter2'')])) ex_world))) =
     [Some (JObj [(''password'', JStr ''hunter2'')])]"
  by code_simp

section \<open>Claims about the tenant-scoped service\<close>

lemma getTenantIdFromRequest_Some:
  "getTenantIdFromRequest req = Some t \<longleftrightarrow> tenantId req = Some t \<and> t \<noteq> []"
  by (auto simp: getTenantIdFromRequest_def str_or_def split: option.splits)

lemma verifyTenantOwnership_ok_iff:
  "verifyTenantOwnership req entity ty = Inr () \<longleftrightarrow>
     (\<exists>t. getTenantIdFromRequest req = Some t \<and> opt_get entity ''tenant_id'' = Some (JStr t))"
proof (cases "getTenantIdFromRequest req")
  case None
  then show ?thesis by (simp add: verifyTenantOwnership_def)
next
  case (Some cur)
  then have ne: "cur \<noteq> []" by (simp add: getTenantIdFromRequest_Some)
  show ?thesis
  proof (cases "opt_get entity ''tenant_id''")
    case None
    then show ?thesis using Some by (simp add: verifyTenantOwnership_def)
  next
    case (Some owner)
    then show ?thesis
      using \<open>getTenantIdFromRequest req = Some cur\<close> ne
      by (auto simp: verifyTenantOwnership_def)
  qed
qed

text \<open>
  C10. \<open>verifyTenantOwnership\<close> completes normally exactly when the request has a tenant
  identifier and the entity's \<open>tenant_id\<close> is that string; in every other case (no
  \<open>tenant_id\<close>, a falsy one, a different one, or no tenant in the request) it throws.
  When it throws on the entity that the wrapped service retrieved, \<open>retrieve\<close> throws
  instead of returning the entity, and \<open>update\<close> and \<open>delete\<close> throw with the wrapped
  service in the state the retrieval left: its \<open>update\<close> and \<open>delete\<close> are not called.
  When the guard completes, \<open>retrieve\<close> returns the entity.
\<close>

theorem C10_tenant_ownership_guard:
  "(verifyTenantOwnership req entity ty = Inr () \<longleftrightarrow>
      (\<exists>t. getTenantIdFromRequest req = Some t \<and> opt_get entity ''tenant_id'' = Some (JStr t))) \<and>
   ((\<exists>e. verifyTenantOwnership req entity ty = Inl e) \<longleftrightarrow>
      \<not> (\<exists>t. getTenantIdFromRequest req = Some t \<and> opt_get entity ''tenant_id'' = Some (JStr t))) \<and>
   (svc_retrieve service i cfg s = (Inr entity, s1) \<and>
    verifyTenantOwnership req entity (svc_name service) = Inl e \<longrightarrow>
      retrieve req service i cfg s = (Inl e, s1)) \<and>
   (svc_retrieve service i (Some (JObj [])) s = (Inr entity, s1) \<and>
    verifyTenantOwnership req entity (svc_name service) = Inl e \<longrightarrow>
      update req service i changes s = (Inl e, s1) \<and> delete req service i s = (Inl e, s1)) \<and>
   (svc_retrieve service i cfg s = (Inr entity, s1) \<and>
    verifyTenantOwnership req entity (svc_name service) = Inr () \<longrightarrow>
      retrieve req service i cfg s = (Inr entity, s1))"
proof (intro conjI impI)
  show ok: "verifyTenantOwnership req entity ty = Inr () \<longleftrightarrow>
      (\<exists>t. getTenantIdFromRequest req = Some t \<and> opt_get entity ''tenant_id'' = Some (JStr t))"
    by (rule verifyTenantOwnership_ok_iff)
  show "(\<exists>e. verifyTenantOwnership req entity ty = Inl e) \<longleftrightarrow>
      \<not> (\<exists>t. getTenantIdFromRequest req = Some t \<and> opt_get entity ''tenant_id'' = Some (JStr t))"
    unfolding ok [symmetric] by (cases "verifyTenantOwnership req entity ty") auto
next
  assume "svc_retrieve service i cfg s = (Inr entity, s1) \<and>
    verifyTenantOwnership req entity (svc_name service) = Inl e"
  then show "retrieve req service i cfg s = (Inl e, s1)"
    by (simp add: retrieve_def)
next
  assume h: "svc_retrieve service i (Some (JObj [])) s = (Inr entity, s1) \<and>
    verifyTenantOwnership req entity (svc_name service) = Inl e"
  then have r: "retrieve req service i (Some (JObj [])) s = (Inl e, s1)"
    by (simp add: retrieve_def)
  show "update req service i changes s = (Inl e, s1)"
    by (simp add: update_def r)
  show "delete req service i s = (Inl e, s1)"
    by (simp add: delete_def r)
next
  assume "svc_retrieve service i cfg s = (Inr entity, s1) \<and>
    verifyTenantOwnership req entity (svc_name service) = Inr ()"
  then show "retrieve req service i cfg s = (Inr entity, s1)"
    by (simp add: retrieve_def)
qed

theorem C10_witness:
  "verifyTenantOwnership (ex_request\<lparr>tenantId := Some ''lyon''\<rparr>)
     (Some (JObj [(''id'', JStr ''prod_1''), (''tenant_id'', JStr ''lyon'')])) ''ProductService'' = Inr () \<and>
   update (ex_request\<lparr>tenantId := Some ''paris''\<rparr>) ex_service ''prod_1'' [(''title'', JStr ''x'')] [] =
     (Inl (Error (''Access denied: ProductService belongs to tenant '' @ quoted ''lyon'' @
                  '' but current tenant is '' @ quoted ''paris'')), [''retrieve'']) \<and>
   delete (ex_request\<lparr>tenantId := Some ''paris''\<rparr>) ex_service ''prod_1'' [] =
     (Inl (Error (''Access denied: ProductService belongs to tenant '' @ quoted ''lyon'' @
                  '' but current tenant is '' @ quoted ''paris'')), [''retrieve''])"
  using
    C10_tenant_ownership_guard [of "ex_request\<lparr>tenantId := Some ''lyon''\<rparr>"
      "Some (JObj [(''id'', JStr ''prod_1''), (''tenant_id'', JStr ''lyon'')])" "''ProductService''"]
    C10_tenant_ownership_guard [of "ex_request\<lparr>tenantId := Some ''paris''\<rparr>"
      "Some (JObj [(''id'', JStr ''prod_1''), (''tenant_id'', JStr ''lyon'')])" "''ProductService''"
      ex_service "''prod_1''" "Some (JObj [])" "[]" "[''retrieve'']"
      "Error (''Access denied: ProductService belongs to tenant '' @ quoted ''lyon'' @
              '' but current tenant is '' @ quoted ''paris'')" "[(''title'', JStr ''x'')]"]
  by (simp add: ex_service_def ex_request_def getTenantIdFromRequest_def str_or_def
      verifyTenantOwnership_def quoted_def)

end
